theory Spec2Isabelle
  imports Main
begin

section \<open>Query_Processor_Lambda.py: the RAG query handler\<close>

text \<open>
  A shallow embedding of \<^verbatim>\<open>AWS/Serverless Architecture/External/Query_Processor_Lambda.py\<close>.
  Python values that reach the handler are decoded JSON, so they are modelled by the
  datatype \<open>json\<close>; a Python \<open>str\<close> is a list of code points, so that \<open>len\<close> and
  slicing count what Python counts. Every \<open>raise\<close> is a value \<open>Inl e\<close>; every call that
  leaves the process (secret store, HTTP, search index, metrics backend) and every log
  line is appended to a trace. The collaborators are fields of the record \<open>world\<close>; each
  of them sees the trace so far, so two calls of the same service may answer differently.
\<close>

subsection \<open>Strings\<close>

type_synonym pystr = "nat list"

definition lit :: "string \<Rightarrow> pystr" where
  "lit s = map of_char s"

definition newline :: pystr where
  "newline = [10]"

text \<open>\<^verbatim>\<open>str.isspace\<close> for one code point (the table of CPython's unicode database).\<close>

definition py_isspace :: "nat \<Rightarrow> bool" where
  "py_isspace c \<longleftrightarrow>
     (9 \<le> c \<and> c \<le> 13) \<or> (28 \<le> c \<and> c \<le> 32) \<or> c = 133 \<or> c = 160 \<or> c = 5760 \<or>
     (8192 \<le> c \<and> c \<le> 8202) \<or> c = 8232 \<or> c = 8233 \<or> c = 8239 \<or> c = 8287 \<or> c = 12288"

text \<open>\<^verbatim>\<open>s.strip()\<close>\<close>

definition py_strip :: "pystr \<Rightarrow> pystr" where
  "py_strip s = rev (dropWhile py_isspace (rev (dropWhile py_isspace s)))"

text \<open>\<^verbatim>\<open>sep.join(xs)\<close>\<close>

fun py_join :: "pystr \<Rightarrow> pystr list \<Rightarrow> pystr" where
  "py_join sep [] = []"
| "py_join sep (x # xs) = x @ concat (map (\<lambda>y. sep @ y) xs)"

text \<open>The decimal text of an \<open>int\<close>, as an f-string prints it.\<close>

fun digits :: "nat \<Rightarrow> pystr" where
  "digits n = (if n < 10 then [48 + n] else digits (n div 10) @ [48 + n mod 10])"

declare digits.simps [simp del]

definition str_int :: "int \<Rightarrow> pystr" where
  "str_int i = (if i < 0 then 45 # digits (nat (- i)) else digits (nat i))"

subsection \<open>Values, exceptions, the trace\<close>

datatype json =
    JNull
  | JBool bool
  | JInt int
  | JFloat int int
  | JStr pystr
  | JList "json list"
  | JObj "(pystr \<times> json) list"

text \<open>
  \<open>JFloat m e\<close> is the finite binary float \<open>m * 2 ^ e\<close>. \<open>JObj\<close> is a \<open>dict\<close> with
  string keys, in insertion order.

  Exceptions: \<open>Exception m\<close> is \<^verbatim>\<open>Exception(m)\<close>, as the source raises it; the next four
  are raised by the interpreter (with the object or key concerned); \<open>LibraryError m\<close> is
  any exception of a library or a collaborator, with its \<^verbatim>\<open>str()\<close> text. All of them
  are subclasses of \<^verbatim>\<open>Exception\<close>, so every \<^verbatim>\<open>except Exception\<close> catches them.
\<close>

datatype py_exc =
    Exception pystr
  | AttributeError json pystr
  | KeyError json
  | IndexError
  | TypeError json
  | LibraryError pystr

text \<open>A number handed to the metrics backend: an \<open>int\<close>, or the true division \<open>a / b\<close>.\<close>

datatype number = IntVal int | Quot int int

record http_response =
  status_code :: int
  resp_text :: pystr
  resp_json :: "py_exc + json"

datatype event =
    GetSecretValue pystr
  | HttpPost pystr "(pystr \<times> pystr) list" json nat
  | Search "pystr" json
  | PutMetricData pystr pystr number pystr pystr
  | LogError pystr
  | LogInfo pystr

text \<open>
  \<open>HttpPost url headers json timeout\<close>; \<open>Search index body\<close>;
  \<open>PutMetricData namespace metric_name value unit environment\<close>.
\<close>

record world =
  LLM_API_KEY_SECRET :: pystr
  EXTERNAL_LLM_ENDPOINT :: pystr
  VECTOR_INDEX_NAME :: "pystr option"
  ENVIRONMENT :: "pystr option"
  json_loads :: "pystr \<Rightarrow> py_exc + json"
  json_dumps :: "json \<Rightarrow> pystr"
  py_repr :: "json \<Rightarrow> pystr"
  builtin_text :: "py_exc \<Rightarrow> pystr"
  get_secret_value :: "event list \<Rightarrow> pystr \<Rightarrow> py_exc + json"
  requests_post :: "event list \<Rightarrow> pystr \<Rightarrow> (pystr \<times> pystr) list \<Rightarrow> json \<Rightarrow> nat
                      \<Rightarrow> py_exc + http_response"
  opensearch_search :: "event list \<Rightarrow> pystr \<Rightarrow> json \<Rightarrow> py_exc + json"
  put_metric_data :: "event list \<Rightarrow> pystr \<Rightarrow> pystr \<Rightarrow> number \<Rightarrow> pystr \<Rightarrow> pystr
                        \<Rightarrow> py_exc + unit"
  get_remaining_time_in_millis :: "event list \<Rightarrow> int"

text \<open>
  The first four fields are the environment variables the handler reads (the two the
  module reads with \<^verbatim>\<open>os.environ[...]\<close> at import are present, or the handler is never
  defined). \<open>json_loads\<close>, \<open>json_dumps\<close>, \<open>py_repr\<close> (the \<^verbatim>\<open>str()\<close> of a value
  that is not a string) and \<open>builtin_text\<close> (the message of an exception the
  interpreter raises) are library functions, taken as they are; \<open>json_dumps\<close> is
  total, since every value the handler serialises is decoded JSON or built from it. The
  rest are the collaborators and the Lambda context. A collaborator fails with a subclass
  of \<^verbatim>\<open>Exception\<close>; an interrupt or an exit of the interpreter is not modelled.
\<close>

subsection \<open>Python operations on decoded JSON\<close>

text \<open>\<^verbatim>\<open>str(v)\<close>, also what an f-string prints for \<open>v\<close>.\<close>

definition py_str :: "world \<Rightarrow> json \<Rightarrow> pystr" where
  "py_str w v = (case v of JStr s \<Rightarrow> s | _ \<Rightarrow> py_repr w v)"

text \<open>\<^verbatim>\<open>str(e)\<close>\<close>

definition str_exc :: "world \<Rightarrow> py_exc \<Rightarrow> pystr" where
  "str_exc w e = (case e of Exception m \<Rightarrow> m | LibraryError m \<Rightarrow> m | _ \<Rightarrow> builtin_text w e)"

text \<open>\<^verbatim>\<open>v.get(k, d)\<close>\<close>

definition py_get :: "json \<Rightarrow> pystr \<Rightarrow> json \<Rightarrow> py_exc + json" where
  "py_get v k d =
     (case v of
        JObj kvs \<Rightarrow> Inr (case map_of kvs k of None \<Rightarrow> d | Some x \<Rightarrow> x)
      | _ \<Rightarrow> Inl (AttributeError v (lit ''get'')))"

text \<open>\<^verbatim>\<open>v[k]\<close> for a string key\<close>

definition py_getitem :: "json \<Rightarrow> pystr \<Rightarrow> py_exc + json" where
  "py_getitem v k =
     (case v of
        JObj kvs \<Rightarrow> (case map_of kvs k of None \<Rightarrow> Inl (KeyError (JStr k)) | Some x \<Rightarrow> Inr x)
      | _ \<Rightarrow> Inl (TypeError v))"

text \<open>\<^verbatim>\<open>v[0]\<close>\<close>

definition py_getitem0 :: "json \<Rightarrow> py_exc + json" where
  "py_getitem0 v =
     (case v of
        JList xs \<Rightarrow> (case xs of [] \<Rightarrow> Inl IndexError | x # _ \<Rightarrow> Inr x)
      | JStr s \<Rightarrow> (case s of [] \<Rightarrow> Inl IndexError | c # _ \<Rightarrow> Inr (JStr [c]))
      | JObj kvs \<Rightarrow> Inl (KeyError (JInt 0))
      | _ \<Rightarrow> Inl (TypeError v))"

text \<open>The elements a \<^verbatim>\<open>for\<close> visits.\<close>

definition py_iter :: "json \<Rightarrow> py_exc + json list" where
  "py_iter v =
     (case v of
        JList xs \<Rightarrow> Inr xs
      | JObj kvs \<Rightarrow> Inr (map (\<lambda>kv. JStr (fst kv)) kvs)
      | JStr s \<Rightarrow> Inr (map (\<lambda>c. JStr [c]) s)
      | _ \<Rightarrow> Inl (TypeError v))"

text \<open>\<^verbatim>\<open>len(v)\<close>\<close>

definition py_len :: "json \<Rightarrow> py_exc + nat" where
  "py_len v =
     (case v of
        JStr s \<Rightarrow> Inr (length s)
      | JList xs \<Rightarrow> Inr (length xs)
      | JObj kvs \<Rightarrow> Inr (length kvs)
      | _ \<Rightarrow> Inl (TypeError v))"

text \<open>\<^verbatim>\<open>v.strip()\<close>\<close>

definition strip_method :: "json \<Rightarrow> py_exc + pystr" where
  "strip_method v =
     (case v of JStr s \<Rightarrow> Inr (py_strip s) | _ \<Rightarrow> Inl (AttributeError v (lit ''strip'')))"

text \<open>\<^verbatim>\<open>json.loads(v)\<close>\<close>

definition loads :: "world \<Rightarrow> json \<Rightarrow> py_exc + json" where
  "loads w v = (case v of JStr s \<Rightarrow> json_loads w s | _ \<Rightarrow> Inl (TypeError v))"

text \<open>A list comprehension: the first element that raises ends it.\<close>

fun comprehension :: "('a \<Rightarrow> py_exc + 'b) \<Rightarrow> 'a list \<Rightarrow> py_exc + 'b list" where
  "comprehension f [] = Inr []"
| "comprehension f (x # xs) =
     (case f x of
        Inl e \<Rightarrow> Inl e
      | Inr y \<Rightarrow> (case comprehension f xs of Inl e \<Rightarrow> Inl e | Inr ys \<Rightarrow> Inr (y # ys)))"

subsection \<open>Sequencing, \<^verbatim>\<open>raise\<close> and \<^verbatim>\<open>try\<close>\<close>

type_synonym 'a exec = "event list \<Rightarrow> (py_exc + 'a) \<times> event list"

definition ret :: "'a \<Rightarrow> 'a exec" where
  "ret x = (\<lambda>tr. (Inr x, tr))"

definition raise :: "py_exc \<Rightarrow> 'a exec" where
  "raise e = (\<lambda>tr. (Inl e, tr))"

definition lift :: "py_exc + 'a \<Rightarrow> 'a exec" where
  "lift r = (\<lambda>tr. (r, tr))"

definition seq :: "'a exec \<Rightarrow> ('a \<Rightarrow> 'b exec) \<Rightarrow> 'b exec" where
  "seq m f = (\<lambda>tr. case m tr of (Inl e, tr') \<Rightarrow> (Inl e, tr') | (Inr x, tr') \<Rightarrow> f x tr')"

text \<open>\<^verbatim>\<open>try: m  except Exception as e: h e\<close>\<close>

definition try_except :: "'a exec \<Rightarrow> (py_exc \<Rightarrow> 'a exec) \<Rightarrow> 'a exec" where
  "try_except m h = (\<lambda>tr. case m tr of (Inl e, tr') \<Rightarrow> h e tr' | (Inr x, tr') \<Rightarrow> (Inr x, tr'))"

text \<open>A call of a collaborator: it answers from the trace so far, and the call is recorded.\<close>

definition call :: "(event list \<Rightarrow> py_exc + 'a) \<Rightarrow> event \<Rightarrow> 'a exec" where
  "call f ev = (\<lambda>tr. (f tr, tr @ [ev]))"

definition logger_error :: "pystr \<Rightarrow> unit exec" where
  "logger_error m = (\<lambda>tr. (Inr (), tr @ [LogError m]))"

definition logger_info :: "pystr \<Rightarrow> unit exec" where
  "logger_info m = (\<lambda>tr. (Inr (), tr @ [LogInfo m]))"

subsection \<open>The secret provider (lines 38-45)\<close>

definition get_secret :: "world \<Rightarrow> pystr \<Rightarrow> json exec" where
  "get_secret w secret_name =
     try_except
       (seq (call (\<lambda>tr. get_secret_value w tr secret_name) (GetSecretValue secret_name))
         (\<lambda>response. seq (lift (py_getitem response (lit ''SecretString'')))
           (\<lambda>s. lift (loads w s))))
       (\<lambda>e. seq (logger_error (lit ''Error retrieving secret: '' @ str_exc w e))
         (\<lambda>_. raise e))"

text \<open>The headers both HTTP calls send.\<close>

definition bearer_headers :: "world \<Rightarrow> json \<Rightarrow> (pystr \<times> pystr) list" where
  "bearer_headers w api_key =
     [(lit ''Authorization'', lit ''Bearer '' @ py_str w api_key),
      (lit ''Content-Type'', lit ''application/json'')]"

subsection \<open>The embedding client (lines 47-79)\<close>

definition embedding_payload :: "pystr \<Rightarrow> json" where
  "embedding_payload txt =
     JObj [(lit ''input'', JStr txt), (lit ''model'', JStr (lit ''text-embedding-ada-002''))]"

text \<open>Line 72: \<^verbatim>\<open>response.json()['data'][0]['embedding']\<close>, given the decoded payload.\<close>

definition first_embedding :: "json \<Rightarrow> py_exc + json" where
  "first_embedding payload =
     (case py_getitem payload (lit ''data'') of
        Inl e \<Rightarrow> Inl e
      | Inr d \<Rightarrow>
          (case py_getitem0 d of
             Inl e \<Rightarrow> Inl e
           | Inr d0 \<Rightarrow> py_getitem d0 (lit ''embedding'')))"

text \<open>Lines 71-75.\<close>

definition embedding_result :: "http_response \<Rightarrow> json exec" where
  "embedding_result response =
     (if status_code response = 200 then
        seq (lift (resp_json response)) (\<lambda>payload. lift (first_embedding payload))
      else
        seq (logger_error (lit ''Embedding API error: '' @ str_int (status_code response)
                             @ lit '' - '' @ resp_text response))
          (\<lambda>_. raise (Exception (lit ''Embedding generation failed: ''
                                   @ str_int (status_code response)))))"

definition generate_embedding :: "world \<Rightarrow> pystr \<Rightarrow> json exec" where
  "generate_embedding w txt =
     try_except
       (seq (get_secret w (LLM_API_KEY_SECRET w))
         (\<lambda>secret. seq (lift (py_getitem secret (lit ''api_key'')))
           (\<lambda>api_key.
              seq (call (\<lambda>tr. requests_post w tr (EXTERNAL_LLM_ENDPOINT w @ lit ''/embeddings'')
                                 (bearer_headers w api_key) (embedding_payload txt) 30)
                        (HttpPost (EXTERNAL_LLM_ENDPOINT w @ lit ''/embeddings'')
                                 (bearer_headers w api_key) (embedding_payload txt) 30))
                embedding_result)))
       (\<lambda>e. seq (logger_error (lit ''Error generating embedding: '' @ str_exc w e))
         (\<lambda>_. raise e))"

subsection \<open>The vector search client (lines 81-106)\<close>

definition search_body :: "json \<Rightarrow> int \<Rightarrow> json" where
  "search_body query_embedding top_k =
     JObj [(lit ''size'', JInt top_k),
           (lit ''query'',
              JObj [(lit ''knn'',
                JObj [(lit ''embedding'',
                  JObj [(lit ''vector'', query_embedding), (lit ''k'', JInt top_k)])])]),
           (lit ''_source'',
              JList [JStr (lit ''content''), JStr (lit ''metadata''), JStr (lit ''title'')])]"

text \<open>\<^verbatim>\<open>os.environ['VECTOR_INDEX_NAME']\<close>\<close>

definition environ_index :: "world \<Rightarrow> py_exc + pystr" where
  "environ_index w =
     (case VECTOR_INDEX_NAME w of
        None \<Rightarrow> Inl (KeyError (JStr (lit ''VECTOR_INDEX_NAME'')))
      | Some n \<Rightarrow> Inr n)"

definition search_similar_documents :: "world \<Rightarrow> json \<Rightarrow> int \<Rightarrow> json list exec" where
  "search_similar_documents w query_embedding top_k =
     try_except
       (seq (lift (environ_index w))
         (\<lambda>index.
            seq (call (\<lambda>tr. opensearch_search w tr index (search_body query_embedding top_k))
                      (Search index (search_body query_embedding top_k)))
              (\<lambda>response. seq (lift (py_getitem response (lit ''hits'')))
                (\<lambda>h. seq (lift (py_getitem h (lit ''hits'')))
                  (\<lambda>hh. seq (lift (py_iter hh))
                    (\<lambda>hits. lift (comprehension (\<lambda>hit. py_getitem hit (lit ''_source'')) hits)))))))
       (\<lambda>e. seq (logger_error (lit ''Error searching documents: '' @ str_exc w e))
         (\<lambda>_. raise e))"

subsection \<open>The answer generation client (lines 108-167)\<close>

text \<open>Line 116: one document of the context.\<close>

definition render_document :: "world \<Rightarrow> json \<Rightarrow> py_exc + pystr" where
  "render_document w doc =
     (case py_get doc (lit ''title'') (JStr (lit ''Unknown'')) of
        Inl e \<Rightarrow> Inl e
      | Inr title \<Rightarrow>
          (case py_get doc (lit ''content'') (JStr []) of
             Inl e \<Rightarrow> Inl e
           | Inr content \<Rightarrow>
               Inr (lit ''Document: '' @ py_str w title @ newline @ py_str w content)))"

text \<open>Lines 115-118.\<close>

definition build_context :: "world \<Rightarrow> json list \<Rightarrow> py_exc + pystr" where
  "build_context w context_documents =
     (case comprehension (render_document w) context_documents of
        Inl e \<Rightarrow> Inl e
      | Inr rendered \<Rightarrow> Inr (py_join (newline @ newline) rendered))"

text \<open>Lines 121-128.\<close>

definition build_prompt :: "pystr \<Rightarrow> pystr \<Rightarrow> pystr" where
  "build_prompt context query =
     lit ''Based on the following context, answer the user'' @ [39]
       @ lit ''s question. If the answer cannot be found in the context, say so clearly.''
       @ newline @ newline @ lit ''Context:'' @ newline @ context
       @ newline @ newline @ lit ''Question: '' @ query
       @ newline @ newline @ lit ''Answer:''"

text \<open>Lines 136-150; \<open>0.7\<close> is the float \<open>6305039478318694 * 2 ^ -53\<close>.\<close>

definition chat_payload :: "pystr \<Rightarrow> json" where
  "chat_payload prompt =
     JObj [(lit ''model'', JStr (lit ''gpt-4'')),
           (lit ''messages'',
              JList [JObj [(lit ''role'', JStr (lit ''system'')),
                           (lit ''content'', JStr (lit
     ''You are a helpful assistant that answers questions based on provided context.''))],
                     JObj [(lit ''role'', JStr (lit ''user'')),
                           (lit ''content'', JStr prompt)]]),
           (lit ''max_tokens'', JInt 500),
           (lit ''temperature'', JFloat 6305039478318694 (- 53))]"

text \<open>Line 160: \<^verbatim>\<open>response.json()['choices'][0]['message']['content']\<close>.\<close>

definition first_completion :: "json \<Rightarrow> py_exc + json" where
  "first_completion payload =
     (case py_getitem payload (lit ''choices'') of
        Inl e \<Rightarrow> Inl e
      | Inr c \<Rightarrow>
          (case py_getitem0 c of
             Inl e \<Rightarrow> Inl e
           | Inr c0 \<Rightarrow>
               (case py_getitem c0 (lit ''message'') of
                  Inl e \<Rightarrow> Inl e
                | Inr m \<Rightarrow> py_getitem m (lit ''content''))))"

text \<open>Lines 159-163.\<close>

definition chat_result :: "http_response \<Rightarrow> json exec" where
  "chat_result response =
     (if status_code response = 200 then
        seq (lift (resp_json response)) (\<lambda>payload. lift (first_completion payload))
      else
        seq (logger_error (lit ''LLM API error: '' @ str_int (status_code response)
                             @ lit '' - '' @ resp_text response))
          (\<lambda>_. raise (Exception (lit ''LLM response generation failed: ''
                                   @ str_int (status_code response)))))"

definition generate_rag_response :: "world \<Rightarrow> pystr \<Rightarrow> json list \<Rightarrow> json exec" where
  "generate_rag_response w query context_documents =
     try_except
       (seq (get_secret w (LLM_API_KEY_SECRET w))
         (\<lambda>secret. seq (lift (py_getitem secret (lit ''api_key'')))
           (\<lambda>api_key. seq (lift (build_context w context_documents))
             (\<lambda>context.
                seq (call (\<lambda>tr. requests_post w tr
                                   (EXTERNAL_LLM_ENDPOINT w @ lit ''/chat/completions'')
                                   (bearer_headers w api_key)
                                   (chat_payload (build_prompt context query)) 60)
                          (HttpPost (EXTERNAL_LLM_ENDPOINT w @ lit ''/chat/completions'')
                                   (bearer_headers w api_key)
                                   (chat_payload (build_prompt context query)) 60))
                  chat_result))))
       (\<lambda>e. seq (logger_error (lit ''Error generating LLM response: '' @ str_exc w e))
         (\<lambda>_. raise e))"

subsection \<open>The metrics publisher (lines 169-189)\<close>

text \<open>\<^verbatim>\<open>os.environ.get('ENVIRONMENT', 'dev')\<close>\<close>

definition environment_dimension :: "world \<Rightarrow> pystr" where
  "environment_dimension w = (case ENVIRONMENT w of None \<Rightarrow> lit ''dev'' | Some v \<Rightarrow> v)"

definition publish_metrics :: "world \<Rightarrow> pystr \<Rightarrow> number \<Rightarrow> pystr \<Rightarrow> unit exec" where
  "publish_metrics w metric_name val unit =
     try_except
       (call (\<lambda>tr. put_metric_data w tr (lit ''RAG/Application'') metric_name val unit
                      (environment_dimension w))
             (PutMetricData (lit ''RAG/Application'') metric_name val unit
                      (environment_dimension w)))
       (\<lambda>e. logger_error (lit ''Error publishing metrics: '' @ str_exc w e))"

subsection \<open>The handler (lines 191-282)\<close>

record response =
  statusCode :: int
  headers :: "(pystr \<times> pystr) list"
  body :: pystr

definition json_headers :: "(pystr \<times> pystr) list" where
  "json_headers =
     [(lit ''Content-Type'', lit ''application/json''),
      (lit ''Access-Control-Allow-Origin'', lit ''*'')]"

text \<open>Lines 204-211.\<close>

definition validation_response :: "world \<Rightarrow> response" where
  "validation_response w =
     \<lparr>statusCode = 400, headers = json_headers,
      body = json_dumps w (JObj [(lit ''error'', JStr (lit ''Query is required''))])\<rparr>"

text \<open>Lines 222-232.\<close>

definition no_documents_response :: "world \<Rightarrow> response" where
  "no_documents_response w =
     \<lparr>statusCode = 200, headers = json_headers,
      body = json_dumps w
        (JObj [(lit ''answer'',
                  JStr (lit ''I could not find relevant information to answer your question.'')),
               (lit ''sources'', JList [])])\<rparr>"

text \<open>
  Line 243: the preview of a document's content. The condition \<^verbatim>\<open>len(content) > 200\<close>
  is evaluated first. A list of more than 200 elements is sliced, and the slice cannot be
  concatenated with a string; a dict of more than 200 keys cannot be sliced (a
  \<^verbatim>\<open>TypeError\<close>, or a \<^verbatim>\<open>KeyError\<close> from Python 3.12 on: the handler treats both
  alike).
\<close>

definition content_preview :: "json \<Rightarrow> py_exc + json" where
  "content_preview content =
     (case py_len content of
        Inl e \<Rightarrow> Inl e
      | Inr n \<Rightarrow>
          if n > 200 then
            (case content of
               JStr s \<Rightarrow> Inr (JStr (take 200 s @ lit ''...''))
             | _ \<Rightarrow> Inl (TypeError content))
          else Inr content)"

text \<open>Lines 241-245: one entry of \<open>sources\<close>.\<close>

definition source_entry :: "json \<Rightarrow> py_exc + json" where
  "source_entry doc =
     (case py_get doc (lit ''title'') (JStr (lit ''Unknown'')) of
        Inl e \<Rightarrow> Inl e
      | Inr title \<Rightarrow>
          (case py_get doc (lit ''content'') (JStr []) of
             Inl e \<Rightarrow> Inl e
           | Inr content \<Rightarrow>
               (case content_preview content of
                  Inl e \<Rightarrow> Inl e
                | Inr preview \<Rightarrow>
                    (case py_get doc (lit ''metadata'') (JObj []) of
                       Inl e \<Rightarrow> Inl e
                     | Inr metadata \<Rightarrow>
                         Inr (JObj [(lit ''title'', title),
                                    (lit ''content_preview'', preview),
                                    (lit ''metadata'', metadata)])))))"

text \<open>Lines 238-249.\<close>

definition response_data :: "json \<Rightarrow> json list \<Rightarrow> pystr \<Rightarrow> json" where
  "response_data answer sources query =
     JObj [(lit ''answer'', answer), (lit ''sources'', JList sources),
           (lit ''query'', JStr query)]"

text \<open>Lines 257-264.\<close>

definition success_response :: "world \<Rightarrow> json \<Rightarrow> response" where
  "success_response w data = \<lparr>statusCode = 200, headers = json_headers, body = json_dumps w data\<rparr>"

text \<open>Lines 272-282.\<close>

definition error_message :: "world \<Rightarrow> py_exc \<Rightarrow> pystr" where
  "error_message w e =
     (if ENVIRONMENT w = Some (lit ''dev'') then str_exc w e
      else lit ''An error occurred processing your request'')"

definition error_response :: "world \<Rightarrow> py_exc \<Rightarrow> response" where
  "error_response w e =
     \<lparr>statusCode = 500, headers = json_headers,
      body = json_dumps w
        (JObj [(lit ''error'', JStr (lit ''Internal server error'')),
               (lit ''message'', JStr (error_message w e))])\<rparr>"

text \<open>\<^verbatim>\<open>context.get_remaining_time_in_millis()\<close>\<close>

definition remaining_time :: "world \<Rightarrow> int exec" where
  "remaining_time w = (\<lambda>tr. (Inr (get_remaining_time_in_millis w tr), tr))"

text \<open>Lines 197-200: the request body.\<close>

definition parse_body :: "world \<Rightarrow> json \<Rightarrow> py_exc + json" where
  "parse_body w event =
     (case py_get event (lit ''body'') JNull of
        Inl e \<Rightarrow> Inl e
      | Inr b \<Rightarrow>
          (case b of
             JStr _ \<Rightarrow>
               (case py_getitem event (lit ''body'') of Inl e \<Rightarrow> Inl e | Inr s \<Rightarrow> loads w s)
           | _ \<Rightarrow> py_get event (lit ''body'') (JObj [])))"

text \<open>Line 202: the query.\<close>

definition parse_query :: "json \<Rightarrow> py_exc + pystr" where
  "parse_query request_body =
     (case py_get request_body (lit ''query'') (JStr []) of
        Inl e \<Rightarrow> Inl e
      | Inr q \<Rightarrow> strip_method q)"

text \<open>Lines 234-264: what follows a search that found documents.\<close>

definition answer_stage :: "world \<Rightarrow> int \<Rightarrow> pystr \<Rightarrow> json list \<Rightarrow> response exec" where
  "answer_stage w start_time query similar_docs =
     seq (generate_rag_response w query similar_docs)
       (\<lambda>answer. seq (lift (comprehension source_entry similar_docs))
         (\<lambda>sources. seq (remaining_time w)
           (\<lambda>now. seq (publish_metrics w (lit ''QueryProcessingTime'')
                          (Quot (start_time - now) 1000) (lit ''Seconds''))
             (\<lambda>_. seq (publish_metrics w (lit ''DocumentsRetrieved'')
                          (IntVal (int (length similar_docs))) (lit ''Count''))
               (\<lambda>_. seq (publish_metrics w (lit ''QueriesProcessed'') (IntVal 1) (lit ''Count''))
                 (\<lambda>_. ret (success_response w (response_data answer sources query))))))))"

text \<open>Lines 213-264: what follows a query that passed validation.\<close>

definition pipeline :: "world \<Rightarrow> int \<Rightarrow> pystr \<Rightarrow> response exec" where
  "pipeline w start_time query =
     seq (logger_info (lit ''Processing query: '' @ query))
       (\<lambda>_. seq (generate_embedding w query)
         (\<lambda>query_embedding. seq (search_similar_documents w query_embedding 5)
           (\<lambda>similar_docs.
              if similar_docs = [] then ret (no_documents_response w)
              else answer_stage w start_time query similar_docs)))"

text \<open>Lines 196-264: the body of the \<^verbatim>\<open>try\<close>.\<close>

definition handler_try :: "world \<Rightarrow> json \<Rightarrow> int \<Rightarrow> response exec" where
  "handler_try w event start_time =
     seq (lift (parse_body w event))
       (\<lambda>request_body. seq (lift (parse_query request_body))
         (\<lambda>query. if query = [] then ret (validation_response w)
                   else pipeline w start_time query))"

text \<open>Lines 266-282: the \<^verbatim>\<open>except\<close> clause.\<close>

definition handler_except :: "world \<Rightarrow> py_exc \<Rightarrow> response exec" where
  "handler_except w e =
     seq (logger_error (lit ''Error processing query: '' @ str_exc w e))
       (\<lambda>_. seq (publish_metrics w (lit ''QueryErrors'') (IntVal 1) (lit ''Count''))
         (\<lambda>_. ret (error_response w e)))"

definition lambda_handler :: "world \<Rightarrow> json \<Rightarrow> response exec" where
  "lambda_handler w event =
     seq (remaining_time w)
       (\<lambda>start_time. try_except (handler_try w event start_time) (handler_except w))"

section \<open>Observations\<close>

subsection \<open>Reading the trace\<close>

text \<open>
  \<open>published tr\<close> is the list of measurements sent to the metrics backend, in order;
  \<open>is_generation_call w\<close> holds of the HTTP calls to the chat-completion endpoint.
  \<open>silent Q m\<close> says that the computation \<open>m\<close> adds no event satisfying \<open>Q\<close> to the
  trace, however it ends.
\<close>

fun is_metric :: "event \<Rightarrow> bool" where
  "is_metric (PutMetricData ns n v u env) = True"
| "is_metric _ = False"

definition published :: "event list \<Rightarrow> event list" where
  "published tr = filter is_metric tr"

definition is_generation_call :: "world \<Rightarrow> event \<Rightarrow> bool" where
  "is_generation_call w ev =
     (case ev of
        HttpPost url h p t \<Rightarrow> url = EXTERNAL_LLM_ENDPOINT w @ lit ''/chat/completions''
      | _ \<Rightarrow> False)"

definition silent :: "(event \<Rightarrow> bool) \<Rightarrow> 'a exec \<Rightarrow> bool" where
  "silent Q m \<longleftrightarrow> (\<forall>tr. filter Q (snd (m tr)) = filter Q tr)"

text \<open>The trace after the three measurements of the success path (lines 252-255).\<close>

definition success_trace :: "world \<Rightarrow> int \<Rightarrow> nat \<Rightarrow> event list \<Rightarrow> event list" where
  "success_trace w start_time n tr =
     snd (publish_metrics w (lit ''QueriesProcessed'') (IntVal 1) (lit ''Count'')
       (snd (publish_metrics w (lit ''DocumentsRetrieved'') (IntVal (int n)) (lit ''Count'')
         (snd (publish_metrics w (lit ''QueryProcessingTime'')
                (Quot (start_time - get_remaining_time_in_millis w tr) 1000)
                (lit ''Seconds'') tr)))))"

text \<open>The two headers every response is to carry.\<close>

definition has_json_cors_headers :: "response \<Rightarrow> bool" where
  "has_json_cors_headers r \<longleftrightarrow>
     map_of (headers r) (lit ''Content-Type'') = Some (lit ''application/json'') \<and>
     map_of (headers r) (lit ''Access-Control-Allow-Origin'') = Some (lit ''*'')"

subsection \<open>The specification's documents and context block\<close>

text \<open>
  These follow the words of the specification, not the source: a document is a record
  with an optional title and an optional content; its rendering is
  \<^verbatim>\<open>Document: {title}\<close>, a line break, \<^verbatim>\<open>{content}\<close>, with the defaults
  \<^verbatim>\<open>Unknown\<close> and the empty string; the context block is the renderings in input order,
  a blank line between two of them. \<open>content_of\<close> is the content of a document, the
  empty string when it has none.
\<close>

definition document_text :: "world \<Rightarrow> (pystr \<times> json) list \<Rightarrow> pystr" where
  "document_text w kvs =
     lit ''Document: ''
       @ py_str w (case map_of kvs (lit ''title'') of None \<Rightarrow> JStr (lit ''Unknown'') | Some t \<Rightarrow> t)
       @ newline
       @ py_str w (case map_of kvs (lit ''content'') of None \<Rightarrow> JStr [] | Some c \<Rightarrow> c)"

fun context_block :: "pystr list \<Rightarrow> pystr" where
  "context_block [] = []"
| "context_block [r] = r"
| "context_block (r # r' # rs) = r @ newline @ newline @ context_block (r' # rs)"

definition content_of :: "(pystr \<times> json) list \<Rightarrow> json" where
  "content_of kvs = (case map_of kvs (lit ''content'') of None \<Rightarrow> JStr [] | Some c \<Rightarrow> c)"

subsection \<open>A sample deployment\<close>

text \<open>
  A concrete world on which the theorems are instantiated: one secret, an embedding
  endpoint that answers with the given status and text, a chat endpoint that answers 200,
  an index that returns the given documents, and a metrics backend that accepts
  everything. \<open>demo_dumps\<close> serialises without escapes, which is exact on the strings
  used here (it also stands for \<^verbatim>\<open>str()\<close> of the values that are not strings, none of
  which is printed in the sample runs); \<open>demo_loads\<close> decodes the three texts it
  knows and rejects every other text the way \<^verbatim>\<open>json.loads\<close> rejects
  \<^verbatim>\<open>not json\<close>. The remaining time falls by 100 ms with every event.
\<close>

fun demo_dumps :: "json \<Rightarrow> pystr" where
  "demo_dumps JNull = lit ''null''"
| "demo_dumps (JBool b) = (if b then lit ''true'' else lit ''false'')"
| "demo_dumps (JInt i) = str_int i"
| "demo_dumps (JFloat m e) = str_int m @ lit ''*2**'' @ str_int e"
| "demo_dumps (JStr s) = 34 # s @ [34]"
| "demo_dumps (JList xs) = lit ''['' @ py_join (lit '', '') (map demo_dumps xs) @ lit '']''"
| "demo_dumps (JObj kvs) =
     lit ''{'' @ py_join (lit '', '')
        (map (\<lambda>kv. 34 # fst kv @ [34] @ lit '': '' @ demo_dumps (snd kv)) kvs) @ lit ''}''"

definition demo_loads :: "pystr \<Rightarrow> py_exc + json" where
  "demo_loads s =
     (if s = lit ''{\"api_key\": \"sk-demo\"}'' then
        Inr (JObj [(lit ''api_key'', JStr (lit ''sk-demo''))])
      else if s = lit ''{\"query\": \"  What is RAG?  \"}'' then
        Inr (JObj [(lit ''query'', JStr (lit ''  What is RAG?  ''))])
      else if s = lit ''{}'' then Inr (JObj [])
      else Inl (LibraryError (lit ''Expecting value: line 1 column 1 (char 0)'')))"

definition demo_dicts :: "(pystr \<times> json) list list" where
  "demo_dicts =
     [[(lit ''title'', JStr (lit ''RAG'')),
       (lit ''content'', JStr (lit ''Retrieval-augmented generation.'')),
       (lit ''metadata'', JObj [(lit ''page'', JInt 3)])],
      [(lit ''content'', JStr (replicate 250 120))]]"

definition demo_documents :: "json list" where
  "demo_documents = map JObj demo_dicts"

definition demo_post :: "int \<Rightarrow> pystr \<Rightarrow> pystr \<Rightarrow> py_exc + http_response" where
  "demo_post embedding_status embedding_text url =
     (if url = lit ''https://llm.example.com/v1/embeddings'' then
        Inr \<lparr>status_code = embedding_status, resp_text = embedding_text,
             resp_json = Inr (JObj [(lit ''data'',
               JList [JObj [(lit ''embedding'', JList [JFloat 1 (- 1), JFloat 1 (- 2)])]])])\<rparr>
      else
        Inr \<lparr>status_code = 200, resp_text = lit ''{\"choices\": [...]}'',
             resp_json = Inr (JObj [(lit ''choices'',
               JList [JObj [(lit ''message'',
                 JObj [(lit ''content'',
                   JStr (lit ''RAG combines retrieval and generation.''))])]])])\<rparr>)"

definition demo_world :: "pystr option \<Rightarrow> int \<Rightarrow> pystr \<Rightarrow> json list \<Rightarrow> world" where
  "demo_world environment embedding_status embedding_text documents =
     \<lparr>LLM_API_KEY_SECRET = lit ''rag/llm-api-key'',
      EXTERNAL_LLM_ENDPOINT = lit ''https://llm.example.com/v1'',
      VECTOR_INDEX_NAME = Some (lit ''documents''),
      ENVIRONMENT = environment,
      json_loads = demo_loads,
      json_dumps = demo_dumps,
      py_repr = demo_dumps,
      builtin_text = (\<lambda>e. lit ''interpreter error''),
      get_secret_value = (\<lambda>tr name.
        if name = lit ''rag/llm-api-key''
        then Inr (JObj [(lit ''SecretString'', JStr (lit ''{\"api_key\": \"sk-demo\"}''))])
        else Inl (LibraryError (lit ''ResourceNotFoundException''))),
      requests_post = (\<lambda>tr url h p t. demo_post embedding_status embedding_text url),
      opensearch_search = (\<lambda>tr index b.
        Inr (JObj [(lit ''hits'',
          JObj [(lit ''hits'', JList (map (\<lambda>d. JObj [(lit ''_source'', d)]) documents))])])),
      put_metric_data = (\<lambda>tr ns n v u env. Inr ()),
      get_remaining_time_in_millis = (\<lambda>tr. 30000 - 100 * int (length tr))\<rparr>"

definition demo_event :: json where
  "demo_event = JObj [(lit ''body'', JStr (lit ''{\"query\": \"  What is RAG?  \"}''))]"


definition malformed_event :: json where
  "malformed_event = JObj [(lit ''body'', JStr (lit ''not json''))]"

section \<open>Lemmas\<close>

subsection \<open>Strings and sequencing\<close>

declare demo_dumps.simps [simp del]

lemma lit_eq_iff [simp]: "lit a = lit b \<longleftrightarrow> a = b"
  by (simp add: lit_def inj_map_eq_map inj_of_char)

lemma lit_append: "lit a @ lit b = lit (a @ b)"
  by (simp add: lit_def)

lemma py_strip_empty_iff: "py_strip s = [] \<longleftrightarrow> (\<forall>c \<in> set s. py_isspace c)"
proof (cases "dropWhile py_isspace s")
  case Nil
  then have "\<forall>c \<in> set s. py_isspace c" by (simp add: dropWhile_eq_Nil_conv)
  then show ?thesis unfolding py_strip_def Nil by simp
next
  case (Cons a as)
  then have "dropWhile py_isspace s \<noteq> []" by simp
  then have "\<not> py_isspace (hd (dropWhile py_isspace s))" by (rule hd_dropWhile)
  with Cons have a: "\<not> py_isspace a" by simp
  from Cons have "a \<in> set (dropWhile py_isspace s)" by simp
  then have "a \<in> set s" by (rule set_dropWhileD)
  with a have "\<not> (\<forall>c \<in> set s. py_isspace c)" by blast
  moreover have "py_strip s \<noteq> []" unfolding py_strip_def Cons using a by simp
  ultimately show ?thesis by simp
qed

lemma seq_lift_Inr [simp]: "seq (lift (Inr x)) f tr = f x tr"
  by (simp add: seq_def lift_def)

lemma seq_lift_Inl [simp]: "seq (lift (Inl e)) f tr = (Inl e, tr)"
  by (simp add: seq_def lift_def)

lemma seq_ret [simp]: "seq (ret x) f tr = f x tr"
  by (simp add: seq_def ret_def)

lemma seq_apply:
  "seq m f tr = (case m tr of (Inl e, tr') \<Rightarrow> (Inl e, tr') | (Inr x, tr') \<Rightarrow> f x tr')"
  by (simp add: seq_def)

lemma ret_apply: "ret x tr = (Inr x, tr)"
  by (simp add: ret_def)

lemma lift_apply: "lift r tr = (r, tr)"
  by (simp add: lift_def)

lemma seq_call:
  "seq (call f ev) g tr =
     (case f tr of Inl e \<Rightarrow> (Inl e, tr @ [ev]) | Inr x \<Rightarrow> g x (tr @ [ev]))"
  by (simp add: seq_def call_def split: sum.splits)

lemma seq_remaining_time:
  "seq (remaining_time w) f tr = f (get_remaining_time_in_millis w tr) tr"
  by (simp add: seq_def remaining_time_def)

lemma try_except_reraise:
  "try_except m (\<lambda>e. seq (logger_error (msg e)) (\<lambda>_. raise e)) tr =
     (case m tr of
        (Inl e, tr') \<Rightarrow> (Inl e, tr' @ [LogError (msg e)])
      | (Inr x, tr') \<Rightarrow> (Inr x, tr'))"
  by (simp add: try_except_def seq_def logger_error_def raise_def split: prod.splits sum.splits)

lemma pair_fst_snd: "fst p = x \<Longrightarrow> p = (x, snd p)"
  by (cases p) simp

lemma py_getitem_first: "py_getitem (JObj ((k, v) # kvs)) k = Inr v"
  by (simp add: py_getitem_def)

lemma comprehension_map:
  assumes "\<And>x. x \<in> set xs \<Longrightarrow> f x = Inr (g x)"
  shows "comprehension f xs = Inr (map g xs)"
  using assms by (induction xs) simp_all

text \<open>The decimal text of an \<open>int\<close> determines it.\<close>

lemma digits_nonempty: "digits n \<noteq> []"
  by (subst digits.simps) simp

lemma digits_range: "d \<in> set (digits n) \<Longrightarrow> 48 \<le> d \<and> d \<le> 57"
proof (induction n rule: digits.induct)
  case (1 n)
  show ?case
  proof (cases "n < 10")
    case True
    with "1.prems" show ?thesis by (subst (asm) digits.simps) simp
  next
    case False
    with "1.prems" have "d \<in> set (digits (n div 10)) \<or> d = 48 + n mod 10"
      by (subst (asm) digits.simps) auto
    then show ?thesis
    proof
      assume "d \<in> set (digits (n div 10))"
      with False show ?thesis by (rule "1.IH")
    next
      assume "d = 48 + n mod 10"
      then show ?thesis by simp
    qed
  qed
qed

lemma digits_inj: "digits m = digits n \<Longrightarrow> m = n"
proof (induction m arbitrary: n rule: digits.induct)
  case (1 m)
  have len: "2 \<le> length (digits k)" if "\<not> k < 10" for k
  proof -
    have "digits (k div 10) \<noteq> []" by (rule digits_nonempty)
    then have "1 \<le> length (digits (k div 10))" by (cases "digits (k div 10)") simp_all
    with that show ?thesis by (subst digits.simps) simp
  qed
  show ?case
  proof (cases "m < 10")
    case m: True
    then have dm: "digits m = [48 + m]" by (subst digits.simps) simp
    show ?thesis
    proof (cases "n < 10")
      case True
      then have "digits n = [48 + n]" by (subst digits.simps) simp
      with dm "1.prems" show ?thesis by simp
    next
      case False
      then have "2 \<le> length (digits n)" by (rule len)
      with dm "1.prems" show ?thesis by simp
    qed
  next
    case m: False
    then have dm: "digits m = digits (m div 10) @ [48 + m mod 10]"
      by (subst digits.simps) simp
    show ?thesis
    proof (cases "n < 10")
      case True
      then have "digits n = [48 + n]" by (subst digits.simps) simp
      moreover from m have "2 \<le> length (digits m)" by (rule len)
      ultimately show ?thesis using "1.prems" by simp
    next
      case False
      then have "digits n = digits (n div 10) @ [48 + n mod 10]"
        by (subst digits.simps) simp
      with dm "1.prems" have "digits (m div 10) = digits (n div 10)" and "m mod 10 = n mod 10"
        by simp_all
      from m this(1) have "m div 10 = n div 10" by (rule "1.IH")
      with \<open>m mod 10 = n mod 10\<close> show ?thesis by (metis div_mult_mod_eq)
    qed
  qed
qed

lemma str_int_inj: "str_int a = str_int b \<Longrightarrow> a = b"
proof -
  assume eq: "str_int a = str_int b"
  have no_minus: "45 # ds \<noteq> digits n" for ds n
  proof
    assume "45 # ds = digits n"
    then have "45 \<in> set (digits n)" by (metis list.set_intros(1))
    then have "(48::nat) \<le> 45" by (auto dest: digits_range)
    then show False by simp
  qed
  show ?thesis
  proof (cases "a < 0")
    case a: True
    show ?thesis
    proof (cases "b < 0")
      case True
      with a eq have "digits (nat (- a)) = digits (nat (- b))" by (simp add: str_int_def)
      then have "nat (- a) = nat (- b)" by (rule digits_inj)
      with a True show ?thesis by simp
    next
      case False
      with a eq have "45 # digits (nat (- a)) = digits (nat b)" by (simp add: str_int_def)
      with no_minus show ?thesis by blast
    qed
  next
    case a: False
    show ?thesis
    proof (cases "b < 0")
      case True
      with a eq have "45 # digits (nat (- b)) = digits (nat a)" by (simp add: str_int_def)
      with no_minus show ?thesis by blast
    next
      case False
      with a eq have "digits (nat a) = digits (nat b)" by (simp add: str_int_def)
      then have "nat a = nat b" by (rule digits_inj)
      with a False show ?thesis by simp
    qed
  qed
qed

subsection \<open>Computations that add no event of a given kind\<close>

lemma silentD: "silent Q m \<Longrightarrow> m tr = (r, tr') \<Longrightarrow> filter Q tr' = filter Q tr"
  by (auto simp: silent_def dest: spec [where x = tr])

lemma silent_ret: "silent Q (ret x)"
  by (simp add: silent_def ret_def)

lemma silent_raise: "silent Q (raise e)"
  by (simp add: silent_def raise_def)

lemma silent_lift: "silent Q (lift r)"
  by (simp add: silent_def lift_def)

lemma silent_seq:
  assumes "silent Q m" and "\<And>x. silent Q (f x)"
  shows "silent Q (seq m f)"
  unfolding silent_def
proof
  fix tr
  obtain r tr1 where m: "m tr = (r, tr1)" by (cases "m tr")
  have 1: "filter Q tr1 = filter Q tr" using assms(1) m by (rule silentD)
  show "filter Q (snd (seq m f tr)) = filter Q tr"
  proof (cases r)
    case (Inl e)
    with m 1 show ?thesis by (simp add: seq_def)
  next
    case (Inr x)
    obtain r2 tr2 where f: "f x tr1 = (r2, tr2)" by (cases "f x tr1")
    have "filter Q tr2 = filter Q tr1" using assms(2) f by (rule silentD)
    with m 1 Inr f show ?thesis by (simp add: seq_def)
  qed
qed

lemma silent_try_except:
  assumes "silent Q m" and "\<And>e. silent Q (h e)"
  shows "silent Q (try_except m h)"
  unfolding silent_def
proof
  fix tr
  obtain r tr1 where m: "m tr = (r, tr1)" by (cases "m tr")
  have 1: "filter Q tr1 = filter Q tr" using assms(1) m by (rule silentD)
  show "filter Q (snd (try_except m h tr)) = filter Q tr"
  proof (cases r)
    case (Inr x)
    with m 1 show ?thesis by (simp add: try_except_def)
  next
    case (Inl e)
    obtain r2 tr2 where h: "h e tr1 = (r2, tr2)" by (cases "h e tr1")
    have "filter Q tr2 = filter Q tr1" using assms(2) h by (rule silentD)
    with m 1 Inl h show ?thesis by (simp add: try_except_def)
  qed
qed

lemma silent_call: "\<not> Q ev \<Longrightarrow> silent Q (call f ev)"
  by (simp add: silent_def call_def)

lemma silent_logger_error: "\<not> Q (LogError m) \<Longrightarrow> silent Q (logger_error m)"
  by (simp add: silent_def logger_error_def)

lemma silent_logger_info: "\<not> Q (LogInfo m) \<Longrightarrow> silent Q (logger_info m)"
  by (simp add: silent_def logger_info_def)

lemmas silent_intros =
  silent_ret silent_raise silent_lift silent_seq silent_try_except silent_call
  silent_logger_error silent_logger_info

lemma silent_get_secret:
  assumes "\<And>m. \<not> Q (LogError m)" and "\<And>n. \<not> Q (GetSecretValue n)"
  shows "silent Q (get_secret w n)"
  unfolding get_secret_def by (intro silent_intros assms)

lemma silent_embedding_result:
  assumes "\<And>m. \<not> Q (LogError m)"
  shows "silent Q (embedding_result r)"
  unfolding embedding_result_def by (cases "status_code r = 200") (auto intro!: silent_intros assms)

lemma silent_generate_embedding:
  assumes "\<And>m. \<not> Q (LogError m)" and "\<And>n. \<not> Q (GetSecretValue n)"
    and "\<And>h p t. \<not> Q (HttpPost (EXTERNAL_LLM_ENDPOINT w @ lit ''/embeddings'') h p t)"
  shows "silent Q (generate_embedding w txt)"
  unfolding generate_embedding_def
  by (intro silent_intros silent_get_secret silent_embedding_result assms)

lemma silent_search_similar_documents:
  assumes "\<And>m. \<not> Q (LogError m)" and "\<And>i b. \<not> Q (Search i b)"
  shows "silent Q (search_similar_documents w emb k)"
  unfolding search_similar_documents_def by (intro silent_intros assms)

lemma silent_chat_result:
  assumes "\<And>m. \<not> Q (LogError m)"
  shows "silent Q (chat_result r)"
  unfolding chat_result_def by (cases "status_code r = 200") (auto intro!: silent_intros assms)

lemma silent_generate_rag_response:
  assumes "\<And>m. \<not> Q (LogError m)" and "\<And>n. \<not> Q (GetSecretValue n)"
    and "\<And>u h p t. \<not> Q (HttpPost u h p t)"
  shows "silent Q (generate_rag_response w q docs)"
  unfolding generate_rag_response_def
  by (intro silent_intros silent_get_secret silent_chat_result assms)

lemma embeddings_url_neq:
  "EXTERNAL_LLM_ENDPOINT w @ lit ''/embeddings'' \<noteq> EXTERNAL_LLM_ENDPOINT w @ lit ''/chat/completions''"
  by (simp add: lit_def)

lemma silent_metric_generate_embedding: "silent is_metric (generate_embedding w q)"
  by (rule silent_generate_embedding) simp_all

lemma silent_metric_search: "silent is_metric (search_similar_documents w emb k)"
  by (rule silent_search_similar_documents) simp_all

lemma silent_metric_rag: "silent is_metric (generate_rag_response w q docs)"
  by (rule silent_generate_rag_response) simp_all

lemma silent_generation_embedding:
  "silent (is_generation_call w) (generate_embedding w q)"
  by (rule silent_generate_embedding) (simp_all add: is_generation_call_def embeddings_url_neq)

lemma silent_generation_search:
  "silent (is_generation_call w) (search_similar_documents w emb k)"
  by (rule silent_search_similar_documents) (simp_all add: is_generation_call_def)

subsection \<open>What each function computes\<close>

lemma publish_metrics_run:
  "publish_metrics w n v u tr =
     (Inr (), tr @ [PutMetricData (lit ''RAG/Application'') n v u (environment_dimension w)]
        @ (case put_metric_data w tr (lit ''RAG/Application'') n v u (environment_dimension w) of
             Inl e \<Rightarrow> [LogError (lit ''Error publishing metrics: '' @ str_exc w e)]
           | Inr _ \<Rightarrow> []))"
  by (simp add: publish_metrics_def try_except_def call_def logger_error_def split: sum.splits)

lemma seq_publish_metrics:
  "seq (publish_metrics w n v u) f tr = f () (snd (publish_metrics w n v u tr))"
proof -
  have "fst (publish_metrics w n v u tr) = Inr ()" by (simp add: publish_metrics_run)
  then show ?thesis by (cases "publish_metrics w n v u tr") (simp add: seq_def)
qed

lemma published_publish_metrics:
  "published (snd (publish_metrics w n v u tr)) =
     published tr @ [PutMetricData (lit ''RAG/Application'') n v u (environment_dimension w)]"
  by (simp add: publish_metrics_run published_def split: sum.splits)

lemma handler_except_run:
  "handler_except w e tr =
     (Inr (error_response w e),
      snd (publish_metrics w (lit ''QueryErrors'') (IntVal 1) (lit ''Count'')
             (tr @ [LogError (lit ''Error processing query: '' @ str_exc w e)])))"
  by (simp add: handler_except_def seq_def logger_error_def publish_metrics_run ret_def)

lemma published_handler_except:
  "published (snd (handler_except w e tr)) =
     published tr @ [PutMetricData (lit ''RAG/Application'') (lit ''QueryErrors'') (IntVal 1)
                       (lit ''Count'') (environment_dimension w)]"
  by (simp add: handler_except_run published_publish_metrics) (simp add: published_def)

lemma get_secret_run:
  "get_secret w n tr =
     (case (case get_secret_value w tr n of
              Inl e \<Rightarrow> Inl e
            | Inr response \<Rightarrow>
                (case py_getitem response (lit ''SecretString'') of
                   Inl e \<Rightarrow> Inl e
                 | Inr s \<Rightarrow> loads w s)) of
        Inl e \<Rightarrow> (Inl e, tr @ [GetSecretValue n,
                               LogError (lit ''Error retrieving secret: '' @ str_exc w e)])
      | Inr v \<Rightarrow> (Inr v, tr @ [GetSecretValue n]))"
  by (simp add: get_secret_def try_except_def seq_def call_def lift_def logger_error_def
      raise_def split: sum.splits)

lemma embedding_result_run:
  "embedding_result r tr =
     (if status_code r = 200 then
        (case resp_json r of Inl e \<Rightarrow> (Inl e, tr) | Inr j \<Rightarrow> (first_embedding j, tr))
      else (Inl (Exception (lit ''Embedding generation failed: '' @ str_int (status_code r))),
            tr @ [LogError (lit ''Embedding API error: '' @ str_int (status_code r)
                              @ lit '' - '' @ resp_text r)]))"
  by (simp add: embedding_result_def seq_def lift_def logger_error_def raise_def split: sum.splits)

lemma chat_result_run:
  "chat_result r tr =
     (if status_code r = 200 then
        (case resp_json r of Inl e \<Rightarrow> (Inl e, tr) | Inr j \<Rightarrow> (first_completion j, tr))
      else (Inl (Exception (lit ''LLM response generation failed: '' @ str_int (status_code r))),
            tr @ [LogError (lit ''LLM API error: '' @ str_int (status_code r)
                              @ lit '' - '' @ resp_text r)]))"
  by (simp add: chat_result_def seq_def lift_def logger_error_def raise_def split: sum.splits)

lemma chat_result_extends: "\<exists>rest. snd (chat_result r tr) = tr @ rest"
  by (simp add: chat_result_run split: sum.splits)

lemma generate_embedding_run:
  assumes "get_secret w (LLM_API_KEY_SECRET w) tr = (Inr secret, tr1)"
    and "py_getitem secret (lit ''api_key'') = Inr api_key"
    and "requests_post w tr1 (EXTERNAL_LLM_ENDPOINT w @ lit ''/embeddings'')
           (bearer_headers w api_key) (embedding_payload txt) 30 = Inr r"
  shows "generate_embedding w txt tr =
     (case embedding_result r
             (tr1 @ [HttpPost (EXTERNAL_LLM_ENDPOINT w @ lit ''/embeddings'')
                       (bearer_headers w api_key) (embedding_payload txt) 30]) of
        (Inl e, tr') \<Rightarrow>
          (Inl e, tr' @ [LogError (lit ''Error generating embedding: '' @ str_exc w e)])
      | (Inr x, tr') \<Rightarrow> (Inr x, tr'))"
  unfolding generate_embedding_def try_except_reraise
  using assms by (simp add: seq_apply [of "get_secret w (LLM_API_KEY_SECRET w)"] seq_call)

lemma render_document_JObj: "render_document w (JObj kvs) = Inr (document_text w kvs)"
  by (simp add: render_document_def py_get_def document_text_def)

lemma py_join_context_block: "py_join (newline @ newline) rs = context_block rs"
  by (induction rs rule: context_block.induct) simp_all

lemma build_context_JObj:
  "build_context w (map JObj dicts) = Inr (context_block (map (document_text w) dicts))"
proof -
  have "comprehension (render_document w) (map JObj dicts)
      = Inr (map (\<lambda>d. case d of JObj kvs \<Rightarrow> document_text w kvs | _ \<Rightarrow> []) (map JObj dicts))"
    by (rule comprehension_map) (auto simp: render_document_JObj)
  then show ?thesis
    by (simp add: build_context_def py_join_context_block comp_def)
qed

lemma content_preview_JStr:
  "content_preview (JStr s) = Inr (JStr (if length s > 200 then take 200 s @ lit ''...'' else s))"
  by (simp add: content_preview_def py_len_def)

lemma source_entry_JObj:
  assumes "content_of kvs = JStr s"
  shows "source_entry (JObj kvs) =
     Inr (JObj [(lit ''title'',
                   case map_of kvs (lit ''title'') of None \<Rightarrow> JStr (lit ''Unknown'') | Some t \<Rightarrow> t),
                (lit ''content_preview'',
                   JStr (if length s > 200 then take 200 s @ lit ''...'' else s)),
                (lit ''metadata'',
                   case map_of kvs (lit ''metadata'') of None \<Rightarrow> JObj [] | Some m \<Rightarrow> m)])"
  using assms by (simp add: source_entry_def py_get_def content_of_def content_preview_JStr)



lemma parse_query_empty_iff:
  "parse_query b = Inr [] \<longleftrightarrow>
     (\<exists>kvs. b = JObj kvs \<and>
        (map_of kvs (lit ''query'') = None \<or>
         (\<exists>s. map_of kvs (lit ''query'') = Some (JStr s) \<and> (\<forall>c \<in> set s. py_isspace c))))"
proof (cases b)
  case (JObj kvs)
  show ?thesis
  proof (cases "map_of kvs (lit ''query'')")
    case None
    with JObj show ?thesis
      by (simp add: parse_query_def py_get_def strip_method_def py_strip_def)
  next
    case (Some v)
    with JObj show ?thesis
      by (cases v) (simp_all add: parse_query_def py_get_def strip_method_def py_strip_empty_iff)
  qed
qed (simp_all add: parse_query_def py_get_def)

lemma lambda_handler_unfold:
  "lambda_handler w event tr =
     (case handler_try w event (get_remaining_time_in_millis w tr) tr of
        (Inl e, tr') \<Rightarrow> handler_except w e tr'
      | (Inr r, tr') \<Rightarrow> (Inr r, tr'))"
  by (simp add: lambda_handler_def seq_def remaining_time_def try_except_def)

lemma handler_try_unfold:
  "handler_try w event st tr =
     (case parse_body w event of
        Inl e \<Rightarrow> (Inl e, tr)
      | Inr b \<Rightarrow>
          (case parse_query b of
             Inl e \<Rightarrow> (Inl e, tr)
           | Inr q \<Rightarrow> if q = [] then (Inr (validation_response w), tr) else pipeline w st q tr))"
  by (simp add: handler_try_def ret_def split: sum.splits)

lemma pipeline_unfold:
  "pipeline w st q tr =
     (case generate_embedding w q (tr @ [LogInfo (lit ''Processing query: '' @ q)]) of
        (Inl e, tr1) \<Rightarrow> (Inl e, tr1)
      | (Inr emb, tr1) \<Rightarrow>
          (case search_similar_documents w emb 5 tr1 of
             (Inl e, tr2) \<Rightarrow> (Inl e, tr2)
           | (Inr docs, tr2) \<Rightarrow>
               if docs = [] then (Inr (no_documents_response w), tr2)
               else answer_stage w st q docs tr2))"
  by (simp add: pipeline_def seq_def logger_info_def ret_def split: prod.splits sum.splits)

lemma answer_stage_unfold:
  "answer_stage w st q docs tr =
     (case generate_rag_response w q docs tr of
        (Inl e, tr1) \<Rightarrow> (Inl e, tr1)
      | (Inr answer, tr1) \<Rightarrow>
          (case comprehension source_entry docs of
             Inl e \<Rightarrow> (Inl e, tr1)
           | Inr sources \<Rightarrow>
               (Inr (success_response w (response_data answer sources q)),
                success_trace w st (length docs) tr1)))"
proof -
  obtain x tr1 where g: "generate_rag_response w q docs tr = (x, tr1)"
    by (cases "generate_rag_response w q docs tr")
  show ?thesis
  proof (cases x)
    case (Inl e)
    with g show ?thesis
      by (simp add: answer_stage_def seq_apply [of "generate_rag_response w q docs"])
  next
    case (Inr answer)
    show ?thesis
    proof (cases "comprehension source_entry docs")
      case (Inl e)
      with g Inr show ?thesis
        by (simp add: answer_stage_def seq_apply [of "generate_rag_response w q docs"])
    next
      case s: (Inr sources)
      with g Inr show ?thesis
        by (simp add: answer_stage_def seq_apply [of "generate_rag_response w q docs"]
            seq_remaining_time seq_publish_metrics ret_apply success_trace_def)
    qed
  qed
qed

subsection \<open>A failing \<^verbatim>\<open>try\<close> body has published nothing; a returning one has one of three responses\<close>

lemma published_answer_stage_Inl:
  assumes "answer_stage w st q docs tr = (Inl e, tr')"
  shows "published tr' = published tr"
proof -
  obtain r tr1 where g: "generate_rag_response w q docs tr = (r, tr1)"
    by (cases "generate_rag_response w q docs tr")
  have 1: "published tr1 = published tr"
    unfolding published_def using silent_metric_rag g by (rule silentD)
  from assms g have "tr' = tr1"
    by (auto simp: answer_stage_unfold split: sum.splits)
  with 1 show ?thesis by simp
qed

lemma published_pipeline_Inl:
  assumes "pipeline w st q tr = (Inl e, tr')"
  shows "published tr' = published tr"
proof -
  let ?tr0 = "tr @ [LogInfo (lit ''Processing query: '' @ q)]"
  obtain r tr1 where g: "generate_embedding w q ?tr0 = (r, tr1)"
    by (cases "generate_embedding w q ?tr0")
  have "published tr1 = published ?tr0"
    unfolding published_def using silent_metric_generate_embedding g by (rule silentD)
  then have 1: "published tr1 = published tr" by (simp add: published_def)
  show ?thesis
  proof (cases r)
    case (Inl e1)
    with assms g have "tr' = tr1" by (simp add: pipeline_unfold)
    with 1 show ?thesis by simp
  next
    case (Inr emb)
    obtain r2 tr2 where s: "search_similar_documents w emb 5 tr1 = (r2, tr2)"
      by (cases "search_similar_documents w emb 5 tr1")
    have 2: "published tr2 = published tr1"
      unfolding published_def using silent_metric_search s by (rule silentD)
    show ?thesis
    proof (cases r2)
      case (Inl e2)
      with assms g Inr s have "tr' = tr2" by (simp add: pipeline_unfold)
      with 1 2 show ?thesis by simp
    next
      case docs: (Inr docs)
      with assms g Inr s have "docs \<noteq> []" and "answer_stage w st q docs tr2 = (Inl e, tr')"
        by (auto simp: pipeline_unfold split: if_splits)
      then have "published tr' = published tr2" by (auto dest: published_answer_stage_Inl)
      with 1 2 show ?thesis by simp
    qed
  qed
qed

lemma published_handler_try_Inl:
  assumes "handler_try w event st tr = (Inl e, tr')"
  shows "published tr' = published tr"
proof (cases "parse_body w event")
  case (Inl e1)
  with assms show ?thesis by (simp add: handler_try_unfold)
next
  case b: (Inr b)
  show ?thesis
  proof (cases "parse_query b")
    case (Inl e2)
    with assms b show ?thesis by (simp add: handler_try_unfold)
  next
    case (Inr q)
    with assms b have "pipeline w st q tr = (Inl e, tr')"
      by (simp add: handler_try_unfold split: if_splits)
    then show ?thesis by (rule published_pipeline_Inl)
  qed
qed

lemma answer_stage_Inr:
  assumes "answer_stage w st q docs tr = (Inr r, tr')"
  shows "\<exists>d. r = success_response w d"
proof -
  obtain x tr1 where g: "generate_rag_response w q docs tr = (x, tr1)"
    by (cases "generate_rag_response w q docs tr")
  show ?thesis
  proof (cases x)
    case (Inl e)
    with assms g show ?thesis by (simp add: answer_stage_unfold)
  next
    case (Inr answer)
    show ?thesis
    proof (cases "comprehension source_entry docs")
      case (Inl e)
      with assms g Inr show ?thesis by (simp add: answer_stage_unfold)
    next
      case s: (Inr sources)
      with assms g Inr have "r = success_response w (response_data answer sources q)"
        by (simp add: answer_stage_unfold)
      then show ?thesis by blast
    qed
  qed
qed

lemma pipeline_Inr:
  assumes "pipeline w st q tr = (Inr r, tr')"
  shows "r = no_documents_response w \<or> (\<exists>d. r = success_response w d)"
proof -
  let ?tr0 = "tr @ [LogInfo (lit ''Processing query: '' @ q)]"
  obtain x tr1 where g: "generate_embedding w q ?tr0 = (x, tr1)"
    by (cases "generate_embedding w q ?tr0")
  show ?thesis
  proof (cases x)
    case (Inl e)
    with assms g show ?thesis by (simp add: pipeline_unfold)
  next
    case (Inr emb)
    obtain y tr2 where s: "search_similar_documents w emb 5 tr1 = (y, tr2)"
      by (cases "search_similar_documents w emb 5 tr1")
    show ?thesis
    proof (cases y)
      case (Inl e)
      with assms g Inr s show ?thesis by (simp add: pipeline_unfold)
    next
      case docs: (Inr docs)
      show ?thesis
      proof (cases "docs = []")
        case True
        with assms g Inr s docs show ?thesis by (simp add: pipeline_unfold)
      next
        case False
        with assms g Inr s docs have "answer_stage w st q docs tr2 = (Inr r, tr')"
          by (simp add: pipeline_unfold)
        then show ?thesis by (auto dest: answer_stage_Inr)
      qed
    qed
  qed
qed

lemma handler_try_Inr:
  assumes "handler_try w event st tr = (Inr r, tr')"
  shows "r = validation_response w \<or> r = no_documents_response w \<or>
         (\<exists>d. r = success_response w d)"
proof (cases "parse_body w event")
  case (Inl e1)
  with assms show ?thesis by (simp add: handler_try_unfold)
next
  case b: (Inr b)
  show ?thesis
  proof (cases "parse_query b")
    case (Inl e2)
    with assms b show ?thesis by (simp add: handler_try_unfold)
  next
    case (Inr q)
    show ?thesis
    proof (cases "q = []")
      case True
      with assms b Inr show ?thesis by (simp add: handler_try_unfold)
    next
      case False
      with assms b Inr have "pipeline w st q tr = (Inr r, tr')"
        by (simp add: handler_try_unfold)
      then show ?thesis by (auto dest: pipeline_Inr)
    qed
  qed
qed

lemma lambda_handler_returns:
  "\<exists>r tr'. lambda_handler w event tr = (Inr r, tr') \<and>
     (r = validation_response w \<or> r = no_documents_response w \<or>
      (\<exists>d. r = success_response w d) \<or> (\<exists>e. r = error_response w e))"
proof -
  obtain x tr1 where h: "handler_try w event (get_remaining_time_in_millis w tr) tr = (x, tr1)"
    by (cases "handler_try w event (get_remaining_time_in_millis w tr) tr")
  show ?thesis
  proof (cases x)
    case (Inl e)
    with h have "lambda_handler w event tr = handler_except w e tr1"
      by (simp add: lambda_handler_unfold)
    then show ?thesis by (simp add: handler_except_run) blast
  next
    case (Inr r)
    with h have 1: "lambda_handler w event tr = (Inr r, tr1)"
      by (simp add: lambda_handler_unfold)
    from h Inr have "r = validation_response w \<or> r = no_documents_response w \<or>
         (\<exists>d. r = success_response w d)"
      by (auto dest: handler_try_Inr)
    with 1 show ?thesis by blast
  qed
qed

subsection \<open>The metrics backend does not reach the response\<close>

lemma backend_str_exc: "str_exc (w\<lparr>put_metric_data := b\<rparr>) e = str_exc w e"
  by (cases e) (simp_all add: str_exc_def)

lemma backend_py_str: "py_str (w\<lparr>put_metric_data := b\<rparr>) v = py_str w v"
  by (cases v) (simp_all add: py_str_def)

lemma backend_loads: "loads (w\<lparr>put_metric_data := b\<rparr>) v = loads w v"
  by (cases v) (simp_all add: loads_def)

lemma backend_get_secret: "get_secret (w\<lparr>put_metric_data := b\<rparr>) n = get_secret w n"
  by (simp add: get_secret_def backend_str_exc backend_loads)

lemma backend_generate_embedding:
  "generate_embedding (w\<lparr>put_metric_data := b\<rparr>) q = generate_embedding w q"
  by (simp add: generate_embedding_def backend_get_secret backend_str_exc bearer_headers_def
      backend_py_str)

lemma backend_search:
  "search_similar_documents (w\<lparr>put_metric_data := b\<rparr>) emb k = search_similar_documents w emb k"
  by (simp add: search_similar_documents_def backend_str_exc environ_index_def)

lemma backend_build_context:
  "build_context (w\<lparr>put_metric_data := b\<rparr>) docs = build_context w docs"
proof -
  have "render_document (w\<lparr>put_metric_data := b\<rparr>) = render_document w"
    by (rule ext) (simp add: render_document_def backend_py_str cong: sum.case_cong)
  then show ?thesis by (simp add: build_context_def)
qed

lemma backend_rag:
  "generate_rag_response (w\<lparr>put_metric_data := b\<rparr>) q docs = generate_rag_response w q docs"
  by (simp add: generate_rag_response_def backend_get_secret backend_str_exc bearer_headers_def
      backend_py_str backend_build_context)

lemma backend_answer_stage:
  "fst (answer_stage (w\<lparr>put_metric_data := b\<rparr>) st q docs tr) = fst (answer_stage w st q docs tr)"
  by (simp add: answer_stage_unfold backend_rag success_response_def
      split: prod.splits sum.splits)

lemma backend_pipeline:
  "fst (pipeline (w\<lparr>put_metric_data := b\<rparr>) st q tr) = fst (pipeline w st q tr)"
  by (simp add: pipeline_unfold backend_generate_embedding backend_search backend_answer_stage
      no_documents_response_def split: prod.splits sum.splits)

lemma backend_handler_try:
  "fst (handler_try (w\<lparr>put_metric_data := b\<rparr>) event st tr) = fst (handler_try w event st tr)"
proof -
  have "parse_body (w\<lparr>put_metric_data := b\<rparr>) event = parse_body w event"
    by (simp add: parse_body_def backend_loads cong: sum.case_cong json.case_cong)
  then show ?thesis
    by (simp add: handler_try_unfold backend_pipeline validation_response_def split: sum.splits)
qed

subsection \<open>The sample deployment, evaluated\<close>

lemma demo_world_fields [simp]:
  "LLM_API_KEY_SECRET (demo_world env st txt docs) = lit ''rag/llm-api-key''"
  "EXTERNAL_LLM_ENDPOINT (demo_world env st txt docs) = lit ''https://llm.example.com/v1''"
  "VECTOR_INDEX_NAME (demo_world env st txt docs) = Some (lit ''documents'')"
  "ENVIRONMENT (demo_world env st txt docs) = env"
  "json_loads (demo_world env st txt docs) = demo_loads"
  "json_dumps (demo_world env st txt docs) = demo_dumps"
  "py_repr (demo_world env st txt docs) = demo_dumps"
  "requests_post (demo_world env st txt docs) tr url h p t = demo_post st txt url"
  "get_remaining_time_in_millis (demo_world env st txt docs) tr = 30000 - 100 * int (length tr)"
  "put_metric_data (demo_world env st txt docs) tr ns n v u e = Inr ()"
  "get_secret_value (demo_world env st txt docs) tr name =
     (if name = lit ''rag/llm-api-key''
      then Inr (JObj [(lit ''SecretString'', JStr (lit ''{\"api_key\": \"sk-demo\"}''))])
      else Inl (LibraryError (lit ''ResourceNotFoundException'')))"
  "opensearch_search (demo_world env st txt docs) tr index b =
     Inr (JObj [(lit ''hits'',
       JObj [(lit ''hits'', JList (map (\<lambda>d. JObj [(lit ''_source'', d)]) docs))])])"
  by (simp_all add: demo_world_def)

lemma demo_documents_dicts: "demo_documents = map JObj demo_dicts"
  by (simp add: demo_documents_def)

lemma demo_get_secret:
  "get_secret (demo_world env st txt docs) (lit ''rag/llm-api-key'') tr =
     (Inr (JObj [(lit ''api_key'', JStr (lit ''sk-demo''))]),
      tr @ [GetSecretValue (lit ''rag/llm-api-key'')])"
  by (simp add: get_secret_run py_getitem_def loads_def demo_loads_def)

lemma demo_generate_embedding:
  "generate_embedding (demo_world env st txt docs) q tr =
     (if st = 200 then
        (Inr (JList [JFloat 1 (- 1), JFloat 1 (- 2)]),
         tr @ [GetSecretValue (lit ''rag/llm-api-key''),
               HttpPost (lit ''https://llm.example.com/v1/embeddings'')
                 (bearer_headers (demo_world env st txt docs) (JStr (lit ''sk-demo'')))
                 (embedding_payload q) 30])
      else
        (Inl (Exception (lit ''Embedding generation failed: '' @ str_int st)),
         tr @ [GetSecretValue (lit ''rag/llm-api-key''),
               HttpPost (lit ''https://llm.example.com/v1/embeddings'')
                 (bearer_headers (demo_world env st txt docs) (JStr (lit ''sk-demo'')))
                 (embedding_payload q) 30,
               LogError (lit ''Embedding API error: '' @ str_int st @ lit '' - '' @ txt),
               LogError (lit ''Error generating embedding: ''
                           @ lit ''Embedding generation failed: '' @ str_int st)]))"
proof -
  let ?w = "demo_world env st txt docs"
  have 1: "get_secret ?w (LLM_API_KEY_SECRET ?w) tr =
     (Inr (JObj [(lit ''api_key'', JStr (lit ''sk-demo''))]),
      tr @ [GetSecretValue (lit ''rag/llm-api-key'')])"
    by (simp add: demo_get_secret)
  have 2: "py_getitem (JObj [(lit ''api_key'', JStr (lit ''sk-demo''))]) (lit ''api_key'')
      = Inr (JStr (lit ''sk-demo''))"
    by (simp add: py_getitem_def)
  have 3: "requests_post ?w (tr @ [GetSecretValue (lit ''rag/llm-api-key'')])
      (EXTERNAL_LLM_ENDPOINT ?w @ lit ''/embeddings'')
      (bearer_headers ?w (JStr (lit ''sk-demo''))) (embedding_payload q) 30 =
      Inr \<lparr>status_code = st, resp_text = txt,
           resp_json = Inr (JObj [(lit ''data'',
             JList [JObj [(lit ''embedding'', JList [JFloat 1 (- 1), JFloat 1 (- 2)])]])])\<rparr>"
    by (simp add: demo_post_def lit_append)
  show ?thesis
    by (simp add: generate_embedding_run [OF 1 2 3] embedding_result_run first_embedding_def
        py_getitem_def py_getitem0_def str_exc_def lit_append)
qed

lemma demo_search:
  "search_similar_documents (demo_world env st txt docs) emb k tr =
     (Inr docs, tr @ [Search (lit ''documents'') (search_body emb k)])"
proof -
  have c: "comprehension (\<lambda>hit. py_getitem hit (lit ''_source''))
             (map (\<lambda>d. JObj [(lit ''_source'', d)]) docs) = Inr docs"
    by (induction docs) (simp_all add: py_getitem_def)
  show ?thesis
    unfolding search_similar_documents_def try_except_reraise
    by (simp add: environ_index_def seq_call py_getitem_first py_iter_def c lift_apply)
qed

lemma demo_generate_rag_response:
  "fst (generate_rag_response (demo_world env st txt docs) q (map JObj dicts) tr) =
     Inr (JStr (lit ''RAG combines retrieval and generation.''))"
proof -
  let ?w = "demo_world env st txt docs"
  have 1: "get_secret ?w (LLM_API_KEY_SECRET ?w) tr =
     (Inr (JObj [(lit ''api_key'', JStr (lit ''sk-demo''))]),
      tr @ [GetSecretValue (lit ''rag/llm-api-key'')])"
    by (simp add: demo_get_secret)
  show ?thesis
    unfolding generate_rag_response_def try_except_reraise
    by (simp add: seq_apply [of "get_secret ?w (lit ''rag/llm-api-key'')"] demo_get_secret
        seq_call build_context_JObj py_getitem_def demo_post_def lit_append chat_result_run
        first_completion_def py_getitem0_def)
qed

lemma demo_parse_body:
  "parse_body (demo_world env st txt docs) demo_event =
     Inr (JObj [(lit ''query'', JStr (lit ''  What is RAG?  ''))])"
  by (simp add: parse_body_def demo_event_def py_get_def py_getitem_def loads_def
      demo_loads_def)

lemma demo_parse_query:
  "parse_query (JObj [(lit ''query'', JStr (lit ''  What is RAG?  ''))]) =
     Inr (lit ''What is RAG?'')"
  by (simp add: parse_query_def py_get_def strip_method_def py_strip_def)
     (simp add: lit_def py_isspace_def)

lemma str_int_503: "str_int 503 = lit ''503''"
  by (simp add: str_int_def digits.simps lit_def)

lemma demo_handler_try_outage:
  "st \<noteq> 200 \<Longrightarrow>
   fst (handler_try (demo_world env st txt docs) demo_event start []) =
     Inl (Exception (lit ''Embedding generation failed: '' @ str_int st))"
  by (simp add: handler_try_unfold demo_parse_body demo_parse_query pipeline_unfold
      demo_generate_embedding) (simp add: lit_def)

section \<open>The specification's claims\<close>




text \<open>
  C2. When the search returns a non-empty list of documents whose content is absent or a
  string, and generation succeeds, the handler answers 200 with a \<open>sources\<close> list as
  long as the document list, and the \<open>content_preview\<close> of each document is the first
  200 characters of its content followed by \<^verbatim>\<open>...\<close> when the content is longer
  than 200 characters, and the content itself otherwise.
\<close>

theorem sources_match_documents:
  assumes "parse_body w event = Inr request_body"
    and "parse_query request_body = Inr query" and "query \<noteq> []"
    and "generate_embedding w query (tr @ [LogInfo (lit ''Processing query: '' @ query)])
           = (Inr query_embedding, tr1)"
    and "search_similar_documents w query_embedding 5 tr1 = (Inr (map JObj dicts), tr2)"
    and "dicts \<noteq> []"
    and "generate_rag_response w query (map JObj dicts) tr2 = (Inr answer, tr3)"
    and "\<forall>kvs \<in> set dicts. \<exists>s. content_of kvs = JStr s"
  shows "\<exists>sources.
           fst (lambda_handler w event tr) =
             Inr \<lparr>statusCode = 200, headers = json_headers,
                  body = json_dumps w
                    (JObj [(lit ''answer'', answer), (lit ''sources'', JList sources),
                           (lit ''query'', JStr query)])\<rparr> \<and>
           length sources = length dicts \<and>
           (\<forall>i < length dicts. \<forall>s. content_of (dicts ! i) = JStr s \<longrightarrow>
              py_getitem (sources ! i) (lit ''content_preview'') =
                Inr (JStr (if length s > 200 then take 200 s @ lit ''...'' else s)))"
proof -
  define g where "g d = (case source_entry d of Inr j \<Rightarrow> j | Inl _ \<Rightarrow> JNull)" for d
  let ?sources = "map g (map JObj dicts)"
  have entry: "source_entry (JObj kvs) = Inr (g (JObj kvs))" if "kvs \<in> set dicts" for kvs
  proof -
    from that assms(8) obtain s where "content_of kvs = JStr s" by blast
    then show ?thesis by (simp add: g_def source_entry_JObj)
  qed
  have "comprehension source_entry (map JObj dicts) = Inr ?sources"
    by (rule comprehension_map) (auto simp: entry)
  with assms(6,7)
  have "answer_stage w (get_remaining_time_in_millis w tr) query (map JObj dicts) tr2 =
          (Inr (success_response w (response_data answer ?sources query)),
           success_trace w (get_remaining_time_in_millis w tr) (length (map JObj dicts)) tr3)"
    by (simp add: answer_stage_unfold)
  with assms(4-6)
  have "pipeline w (get_remaining_time_in_millis w tr) query tr =
          (Inr (success_response w (response_data answer ?sources query)),
           success_trace w (get_remaining_time_in_millis w tr) (length (map JObj dicts)) tr3)"
    by (simp add: pipeline_unfold)
  with assms(1-3)
  have "handler_try w event (get_remaining_time_in_millis w tr) tr =
          (Inr (success_response w (response_data answer ?sources query)),
           success_trace w (get_remaining_time_in_millis w tr) (length (map JObj dicts)) tr3)"
    by (simp add: handler_try_unfold)
  then have 1: "fst (lambda_handler w event tr) =
      Inr (success_response w (response_data answer ?sources query))"
    by (simp add: lambda_handler_unfold)
  have 2: "py_getitem (?sources ! i) (lit ''content_preview'') =
                Inr (JStr (if length s > 200 then take 200 s @ lit ''...'' else s))"
    if "i < length dicts" and "content_of (dicts ! i) = JStr s" for i s
  proof -
    from that(1) have "dicts ! i \<in> set dicts" by simp
    then have "source_entry (JObj (dicts ! i)) = Inr (g (JObj (dicts ! i)))" by (rule entry)
    with that(2) have "g (JObj (dicts ! i)) =
        JObj [(lit ''title'',
                 case map_of (dicts ! i) (lit ''title'') of
                   None \<Rightarrow> JStr (lit ''Unknown'') | Some t \<Rightarrow> t),
              (lit ''content_preview'',
                 JStr (if length s > 200 then take 200 s @ lit ''...'' else s)),
              (lit ''metadata'',
                 case map_of (dicts ! i) (lit ''metadata'') of None \<Rightarrow> JObj [] | Some m \<Rightarrow> m)]"
      by (simp add: source_entry_JObj)
    with that(1) show ?thesis by (simp add: py_getitem_def)
  qed
  from 1 2 show ?thesis
    by (intro exI [of _ ?sources]) (simp add: success_response_def response_data_def)
qed

text \<open>The theorem at the sample deployment.\<close>

theorem sources_match_documents_witness:
  "\<exists>sources.
     fst (lambda_handler (demo_world (Some (lit ''dev'')) 200 [] demo_documents) demo_event []) =
       Inr \<lparr>statusCode = 200, headers = json_headers,
            body = demo_dumps
              (JObj [(lit ''answer'', JStr (lit ''RAG combines retrieval and generation.'')),
                     (lit ''sources'', JList sources),
                     (lit ''query'', JStr (lit ''What is RAG?''))])\<rparr> \<and>
     length sources = 2 \<and>
     py_getitem (sources ! 0) (lit ''content_preview'') =
       Inr (JStr (lit ''Retrieval-augmented generation.'')) \<and>
     py_getitem (sources ! 1) (lit ''content_preview'') =
       Inr (JStr (replicate 200 120 @ lit ''...''))"
proof -
  let ?w = "demo_world (Some (lit ''dev'')) 200 [] demo_documents"
  let ?q = "lit ''What is RAG?''"
  let ?emb = "JList [JFloat 1 (- 1), JFloat 1 (- 2)]"
  let ?tr0 = "[] @ [LogInfo (lit ''Processing query: '' @ ?q)]"
  let ?tr1 = "snd (generate_embedding ?w ?q ?tr0)"
  let ?tr2 = "snd (search_similar_documents ?w ?emb 5 ?tr1)"
  let ?answer = "JStr (lit ''RAG combines retrieval and generation.'')"
  have 1: "parse_body ?w demo_event = Inr (JObj [(lit ''query'', JStr (lit ''  What is RAG?  ''))])"
    by (rule demo_parse_body)
  have 2: "parse_query (JObj [(lit ''query'', JStr (lit ''  What is RAG?  ''))]) = Inr ?q"
    by (rule demo_parse_query)
  have 3: "?q \<noteq> []" by (simp add: lit_def)
  have 4: "generate_embedding ?w ?q ?tr0 = (Inr ?emb, ?tr1)"
    by (rule pair_fst_snd) (simp add: demo_generate_embedding)
  have 5: "search_similar_documents ?w ?emb 5 ?tr1 = (Inr (map JObj demo_dicts), ?tr2)"
    by (rule pair_fst_snd) (simp add: demo_search demo_documents_dicts)
  have 6: "demo_dicts \<noteq> []" by (simp add: demo_dicts_def)
  have 7: "generate_rag_response ?w ?q (map JObj demo_dicts) ?tr2 =
      (Inr ?answer, snd (generate_rag_response ?w ?q (map JObj demo_dicts) ?tr2))"
    by (rule pair_fst_snd) (rule demo_generate_rag_response)
  have c0: "content_of (demo_dicts ! 0) = JStr (lit ''Retrieval-augmented generation.'')"
    and c1: "content_of (demo_dicts ! 1) = JStr (replicate 250 120)"
    by (simp_all add: demo_dicts_def content_of_def)
  have 8: "\<forall>kvs \<in> set demo_dicts. \<exists>s. content_of kvs = JStr s"
    by (simp add: demo_dicts_def content_of_def)
  from sources_match_documents [OF 1 2 3 4 5 6 7 8]
  obtain sources where s:
    "fst (lambda_handler ?w demo_event []) =
       Inr \<lparr>statusCode = 200, headers = json_headers,
            body = json_dumps ?w
              (JObj [(lit ''answer'', ?answer), (lit ''sources'', JList sources),
                     (lit ''query'', JStr ?q)])\<rparr>"
    "length sources = length demo_dicts"
    "\<forall>i < length demo_dicts. \<forall>s. content_of (demo_dicts ! i) = JStr s \<longrightarrow>
        py_getitem (sources ! i) (lit ''content_preview'') =
          Inr (JStr (if length s > 200 then take 200 s @ lit ''...'' else s))"
    by blast
  have len: "length demo_dicts = 2" by (simp add: demo_dicts_def)
  from s(3) len c0 have p0: "py_getitem (sources ! 0) (lit ''content_preview'') =
      Inr (JStr (if length (lit ''Retrieval-augmented generation.'') > 200
                 then take 200 (lit ''Retrieval-augmented generation.'') @ lit ''...''
                 else lit ''Retrieval-augmented generation.''))"
    by simp
  from s(3) len c1 have p1: "py_getitem (sources ! 1) (lit ''content_preview'') =
      Inr (JStr (if length (replicate 250 (120::nat)) > 200
                 then take 200 (replicate 250 120) @ lit ''...''
                 else replicate 250 120))"
    by simp
  from s(1,2) len p0 p1 show ?thesis
    by (intro exI [of _ sources]) (simp add: lit_def)
qed

text \<open>
  C3. When a validated query is embedded and the search returns no document, the handler
  returns the 200 response with the canned answer and \<open>sources = []\<close>; the trace ends
  where the search ended, and no call to the chat-completion endpoint was added to it.
\<close>

theorem no_documents_short_circuit:
  assumes "parse_body w event = Inr request_body"
    and "parse_query request_body = Inr query" and "query \<noteq> []"
    and "generate_embedding w query (tr @ [LogInfo (lit ''Processing query: '' @ query)])
           = (Inr query_embedding, tr1)"
    and "search_similar_documents w query_embedding 5 tr1 = (Inr [], tr2)"
  shows "lambda_handler w event tr =
           (Inr \<lparr>statusCode = 200, headers = json_headers,
                 body = json_dumps w
                   (JObj [(lit ''answer'', JStr (lit
                      ''I could not find relevant information to answer your question.'')),
                          (lit ''sources'', JList [])])\<rparr>,
            tr2) \<and>
         filter (is_generation_call w) tr2 = filter (is_generation_call w) tr"
proof -
  from assms(4,5) have "pipeline w (get_remaining_time_in_millis w tr) query tr
      = (Inr (no_documents_response w), tr2)"
    by (simp add: pipeline_unfold)
  with assms(1-3) have "handler_try w event (get_remaining_time_in_millis w tr) tr
      = (Inr (no_documents_response w), tr2)"
    by (simp add: handler_try_unfold)
  then have 1: "lambda_handler w event tr = (Inr (no_documents_response w), tr2)"
    by (simp add: lambda_handler_unfold)
  have "filter (is_generation_call w) tr1
      = filter (is_generation_call w) (tr @ [LogInfo (lit ''Processing query: '' @ query)])"
    using silent_generation_embedding assms(4) by (rule silentD)
  moreover have "filter (is_generation_call w) tr2 = filter (is_generation_call w) tr1"
    using silent_generation_search assms(5) by (rule silentD)
  ultimately have "filter (is_generation_call w) tr2 = filter (is_generation_call w) tr"
    by (simp add: is_generation_call_def)
  with 1 show ?thesis by (simp add: no_documents_response_def)
qed

text \<open>The theorem at the sample deployment.\<close>

theorem no_documents_short_circuit_witness:
  "fst (lambda_handler (demo_world (Some (lit ''prod'')) 200 [] []) demo_event []) =
     Inr \<lparr>statusCode = 200, headers = json_headers,
          body = demo_dumps
            (JObj [(lit ''answer'', JStr (lit
                      ''I could not find relevant information to answer your question.'')),
                   (lit ''sources'', JList [])])\<rparr>"
proof -
  let ?w = "demo_world (Some (lit ''prod'')) 200 [] []"
  let ?q = "lit ''What is RAG?''"
  let ?emb = "JList [JFloat 1 (- 1), JFloat 1 (- 2)]"
  let ?tr1 = "[LogInfo (lit ''Processing query: '' @ ?q)] @
              [GetSecretValue (lit ''rag/llm-api-key''),
               HttpPost (lit ''https://llm.example.com/v1/embeddings'')
                 (bearer_headers ?w (JStr (lit ''sk-demo''))) (embedding_payload ?q) 30]"
  have 1: "parse_body ?w demo_event = Inr (JObj [(lit ''query'', JStr (lit ''  What is RAG?  ''))])"
    by (rule demo_parse_body)
  have 2: "parse_query (JObj [(lit ''query'', JStr (lit ''  What is RAG?  ''))]) = Inr ?q"
    by (rule demo_parse_query)
  have 3: "?q \<noteq> []" by (simp add: lit_def)
  have 4: "generate_embedding ?w ?q ([] @ [LogInfo (lit ''Processing query: '' @ ?q)])
      = (Inr ?emb, ?tr1)"
    by (simp add: demo_generate_embedding)
  have 5: "search_similar_documents ?w ?emb 5 ?tr1 =
      (Inr [], ?tr1 @ [Search (lit ''documents'') (search_body ?emb 5)])"
    by (rule demo_search)
  show ?thesis using no_documents_short_circuit [OF 1 2 3 4 5] by simp
qed

text \<open>
  C4. Every invocation returns one response. When the body of the \<^verbatim>\<open>try\<close> raises
  \<open>e\<close> (at any stage: parsing, embedding, search, generation, shaping), the response
  is the 500 response with error \<^verbatim>\<open>Internal server error\<close>, and the measurements
  published by the invocation are exactly one: \<^verbatim>\<open>QueryErrors\<close>, value 1, unit
  \<^verbatim>\<open>Count\<close>.
\<close>

theorem internal_failure_response:
  "(\<exists>r tr'. lambda_handler w event tr = (Inr r, tr')) \<and>
   (handler_try w event (get_remaining_time_in_millis w tr) tr = (Inl e, tr1) \<longrightarrow>
      fst (lambda_handler w event tr) =
        Inr \<lparr>statusCode = 500, headers = json_headers,
             body = json_dumps w
               (JObj [(lit ''error'', JStr (lit ''Internal server error'')),
                      (lit ''message'', JStr (error_message w e))])\<rparr> \<and>
      published (snd (lambda_handler w event tr)) =
        published tr @ [PutMetricData (lit ''RAG/Application'') (lit ''QueryErrors'') (IntVal 1)
                          (lit ''Count'') (environment_dimension w)])"
proof (intro conjI impI)
  show "\<exists>r tr'. lambda_handler w event tr = (Inr r, tr')"
    using lambda_handler_returns [of w event tr] by blast
next
  assume h: "handler_try w event (get_remaining_time_in_millis w tr) tr = (Inl e, tr1)"
  then have 1: "lambda_handler w event tr = handler_except w e tr1"
    by (simp add: lambda_handler_unfold)
  then show "fst (lambda_handler w event tr) =
        Inr \<lparr>statusCode = 500, headers = json_headers,
             body = json_dumps w
               (JObj [(lit ''error'', JStr (lit ''Internal server error'')),
                      (lit ''message'', JStr (error_message w e))])\<rparr>"
    by (simp add: handler_except_run error_response_def)
  from h have "published tr1 = published tr" by (rule published_handler_try_Inl)
  with 1 show "published (snd (lambda_handler w event tr)) =
        published tr @ [PutMetricData (lit ''RAG/Application'') (lit ''QueryErrors'') (IntVal 1)
                          (lit ''Count'') (environment_dimension w)]"
    by (simp add: published_handler_except)
qed

text \<open>The theorem at the sample deployment.\<close>

theorem internal_failure_response_witness:
  "fst (lambda_handler (demo_world (Some (lit ''dev'')) 503 (lit ''upstream overloaded'')
          demo_documents) demo_event []) =
     Inr \<lparr>statusCode = 500, headers = json_headers,
          body = demo_dumps
            (JObj [(lit ''error'', JStr (lit ''Internal server error'')),
                   (lit ''message'', JStr (lit ''Embedding generation failed: 503''))])\<rparr> \<and>
   published (snd (lambda_handler (demo_world (Some (lit ''dev'')) 503
          (lit ''upstream overloaded'') demo_documents) demo_event [])) =
     [PutMetricData (lit ''RAG/Application'') (lit ''QueryErrors'') (IntVal 1) (lit ''Count'')
        (lit ''dev'')]"
proof -
  let ?w = "demo_world (Some (lit ''dev'')) 503 (lit ''upstream overloaded'') demo_documents"
  let ?e = "Exception (lit ''Embedding generation failed: '' @ str_int 503)"
  have "fst (handler_try ?w demo_event (get_remaining_time_in_millis ?w []) []) = Inl ?e"
    by (rule demo_handler_try_outage) simp
  then have h: "handler_try ?w demo_event (get_remaining_time_in_millis ?w []) [] =
      (Inl ?e, snd (handler_try ?w demo_event (get_remaining_time_in_millis ?w []) []))"
    by (rule pair_fst_snd)
  show ?thesis
    using internal_failure_response [of ?w demo_event "[]" ?e] h
    by (simp add: error_message_def str_exc_def str_int_503 lit_append published_def
        environment_dimension_def)
qed

text \<open>
  C5. On an internal failure \<open>e\<close> the message of the 500 response is \<^verbatim>\<open>str(e)\<close> when
  the environment label is \<^verbatim>\<open>dev\<close>, and the fixed generic text otherwise; with any
  other label (or none) two failing invocations, whatever their exceptions, get the same
  response.
\<close>

theorem error_detail_exposure:
  assumes "handler_try w event (get_remaining_time_in_millis w tr) tr = (Inl e, tr1)"
    and "handler_try w event' (get_remaining_time_in_millis w tr') tr' = (Inl e', tr1')"
  shows "(ENVIRONMENT w = Some (lit ''dev'') \<longrightarrow>
            fst (lambda_handler w event tr) =
              Inr \<lparr>statusCode = 500, headers = json_headers,
                   body = json_dumps w
                     (JObj [(lit ''error'', JStr (lit ''Internal server error'')),
                            (lit ''message'', JStr (str_exc w e))])\<rparr>) \<and>
         (ENVIRONMENT w \<noteq> Some (lit ''dev'') \<longrightarrow>
            fst (lambda_handler w event tr) =
              Inr \<lparr>statusCode = 500, headers = json_headers,
                   body = json_dumps w
                     (JObj [(lit ''error'', JStr (lit ''Internal server error'')),
                            (lit ''message'',
                               JStr (lit ''An error occurred processing your request''))])\<rparr> \<and>
            fst (lambda_handler w event tr) = fst (lambda_handler w event' tr'))"
proof -
  from assms(1) have 1: "fst (lambda_handler w event tr) = Inr (error_response w e)"
    by (simp add: lambda_handler_unfold handler_except_run)
  from assms(2) have 2: "fst (lambda_handler w event' tr') = Inr (error_response w e')"
    by (simp add: lambda_handler_unfold handler_except_run)
  show ?thesis unfolding 1 2 by (simp add: error_response_def error_message_def)
qed

text \<open>The theorem at the sample deployment.\<close>

theorem error_detail_exposure_witness:
  "fst (lambda_handler (demo_world (Some (lit ''dev'')) 503 (lit ''upstream overloaded'')
          demo_documents) demo_event []) =
     Inr \<lparr>statusCode = 500, headers = json_headers,
          body = demo_dumps
            (JObj [(lit ''error'', JStr (lit ''Internal server error'')),
                   (lit ''message'', JStr (lit ''Embedding generation failed: 503''))])\<rparr> \<and>
   fst (lambda_handler (demo_world (Some (lit ''prod'')) 503 (lit ''upstream overloaded'')
          demo_documents) demo_event []) =
     Inr \<lparr>statusCode = 500, headers = json_headers,
          body = demo_dumps
            (JObj [(lit ''error'', JStr (lit ''Internal server error'')),
                   (lit ''message'',
                      JStr (lit ''An error occurred processing your request''))])\<rparr> \<and>
   fst (lambda_handler (demo_world (Some (lit ''prod'')) 503 (lit ''upstream overloaded'')
          demo_documents) demo_event []) =
   fst (lambda_handler (demo_world (Some (lit ''prod'')) 503 (lit ''upstream overloaded'')
          demo_documents) malformed_event [])"
proof -
  let ?dev = "demo_world (Some (lit ''dev'')) 503 (lit ''upstream overloaded'') demo_documents"
  let ?prod = "demo_world (Some (lit ''prod'')) 503 (lit ''upstream overloaded'') demo_documents"
  let ?e = "Exception (lit ''Embedding generation failed: '' @ str_int 503)"
  let ?e' = "LibraryError (lit ''Expecting value: line 1 column 1 (char 0)'')"
  have "fst (handler_try ?dev demo_event (get_remaining_time_in_millis ?dev []) []) = Inl ?e"
    by (rule demo_handler_try_outage) simp
  then have d: "handler_try ?dev demo_event (get_remaining_time_in_millis ?dev []) [] =
      (Inl ?e, snd (handler_try ?dev demo_event (get_remaining_time_in_millis ?dev []) []))"
    by (rule pair_fst_snd)
  have "fst (handler_try ?prod demo_event (get_remaining_time_in_millis ?prod []) []) = Inl ?e"
    by (rule demo_handler_try_outage) simp
  then have p: "handler_try ?prod demo_event (get_remaining_time_in_millis ?prod []) [] =
      (Inl ?e, snd (handler_try ?prod demo_event (get_remaining_time_in_millis ?prod []) []))"
    by (rule pair_fst_snd)
  have m: "handler_try ?prod malformed_event (get_remaining_time_in_millis ?prod []) [] =
      (Inl ?e', [])"
    by (simp add: handler_try_unfold parse_body_def malformed_event_def py_get_def
        py_getitem_def loads_def demo_loads_def)
  have "str_exc ?dev ?e = lit ''Embedding generation failed: 503''"
    by (simp add: str_exc_def str_int_503 lit_append)
  with error_detail_exposure [OF d d]
  have a: "fst (lambda_handler ?dev demo_event []) =
     Inr \<lparr>statusCode = 500, headers = json_headers,
          body = demo_dumps
            (JObj [(lit ''error'', JStr (lit ''Internal server error'')),
                   (lit ''message'', JStr (lit ''Embedding generation failed: 503''))])\<rparr>"
    by simp
  have "ENVIRONMENT ?prod \<noteq> Some (lit ''dev'')" by simp
  with error_detail_exposure [OF p m]
  have b: "fst (lambda_handler ?prod demo_event []) =
     Inr \<lparr>statusCode = 500, headers = json_headers,
          body = demo_dumps
            (JObj [(lit ''error'', JStr (lit ''Internal server error'')),
                   (lit ''message'',
                      JStr (lit ''An error occurred processing your request''))])\<rparr> \<and>
     fst (lambda_handler ?prod demo_event []) = fst (lambda_handler ?prod malformed_event [])"
    unfolding demo_world_fields by blast
  from a b show ?thesis by (intro conjI) (rule a, rule conjunct1 [OF b], rule conjunct2 [OF b])
qed

text \<open>
  C6. For documents that are objects, the context block the generation client builds is
  the specification's: the renderings \<^verbatim>\<open>Document: {title}\<close>, line break,
  \<^verbatim>\<open>{content}\<close> in input order, a blank line between consecutive ones, with the
  defaults \<^verbatim>\<open>Unknown\<close> and the empty string; and once the credential is read, the
  request sent to the chat-completion endpoint carries the prompt built from that block.
\<close>

theorem context_block_passed_to_generation:
  assumes "get_secret w (LLM_API_KEY_SECRET w) tr = (Inr secret, tr1)"
    and "py_getitem secret (lit ''api_key'') = Inr api_key"
  shows "build_context w (map JObj dicts) = Inr (context_block (map (document_text w) dicts)) \<and>
         (\<exists>rest. snd (generate_rag_response w query (map JObj dicts) tr) =
            tr1 @ HttpPost (EXTERNAL_LLM_ENDPOINT w @ lit ''/chat/completions'')
                    (bearer_headers w api_key)
                    (chat_payload
                       (build_prompt (context_block (map (document_text w) dicts)) query))
                    60 # rest)"
proof
  show "build_context w (map JObj dicts) = Inr (context_block (map (document_text w) dicts))"
    by (rule build_context_JObj)
next
  let ?ev = "HttpPost (EXTERNAL_LLM_ENDPOINT w @ lit ''/chat/completions'')
               (bearer_headers w api_key)
               (chat_payload (build_prompt (context_block (map (document_text w) dicts)) query))
               60"
  let ?post = "requests_post w tr1 (EXTERNAL_LLM_ENDPOINT w @ lit ''/chat/completions'')
               (bearer_headers w api_key)
               (chat_payload (build_prompt (context_block (map (document_text w) dicts)) query))
               60"
  have run: "generate_rag_response w query (map JObj dicts) tr =
     (case (case ?post of Inl e \<Rightarrow> (Inl e, tr1 @ [?ev]) | Inr r \<Rightarrow> chat_result r (tr1 @ [?ev])) of
        (Inl e, tr') \<Rightarrow>
          (Inl e, tr' @ [LogError (lit ''Error generating LLM response: '' @ str_exc w e)])
      | (Inr x, tr') \<Rightarrow> (Inr x, tr'))"
    unfolding generate_rag_response_def try_except_reraise
    using assms
    by (simp add: seq_apply [of "get_secret w (LLM_API_KEY_SECRET w)"] seq_call
        build_context_JObj)
  show "\<exists>rest. snd (generate_rag_response w query (map JObj dicts) tr) = tr1 @ ?ev # rest"
  proof (cases ?post)
    case (Inl e)
    then show ?thesis unfolding run by simp
  next
    case (Inr r)
    obtain rest where "snd (chat_result r (tr1 @ [?ev])) = (tr1 @ [?ev]) @ rest"
      using chat_result_extends by blast
    with Inr show ?thesis unfolding run
      by (cases "chat_result r (tr1 @ [?ev])") (auto split: sum.splits)
  qed
qed

text \<open>The theorem at the sample deployment.\<close>

theorem context_block_passed_to_generation_witness:
  "build_context (demo_world (Some (lit ''dev'')) 200 [] demo_documents) demo_documents =
     Inr (lit ''Document: RAG'' @ newline @ lit ''Retrieval-augmented generation.''
          @ newline @ newline
          @ lit ''Document: Unknown'' @ newline @ replicate 250 120)"
proof -
  let ?w = "demo_world (Some (lit ''dev'')) 200 [] demo_documents"
  have 1: "get_secret ?w (LLM_API_KEY_SECRET ?w) [] =
      (Inr (JObj [(lit ''api_key'', JStr (lit ''sk-demo''))]),
       [GetSecretValue (lit ''rag/llm-api-key'')])"
    by (simp add: demo_get_secret)
  have 2: "py_getitem (JObj [(lit ''api_key'', JStr (lit ''sk-demo''))]) (lit ''api_key'')
      = Inr (JStr (lit ''sk-demo''))"
    by (rule py_getitem_first)
  from context_block_passed_to_generation [OF 1 2, of demo_dicts]
  have "build_context ?w (map JObj demo_dicts) =
      Inr (context_block (map (document_text ?w) demo_dicts))"
    by blast
  then show ?thesis
    by (simp add: demo_documents_dicts) (simp add: demo_dicts_def document_text_def py_str_def
        lit_append)
qed

text \<open>
  C7, as amended. Once the credential is read and the embedding endpoint has answered:
  on a status other than 200 the client logs the status code and the body, and raises an
  exception whose message carries the status code (\<open>str_int\<close> is injective) and
  nothing of the body; on status 200 with a payload whose
  \<open>data\<close> list starts with an object that has an \<open>embedding\<close>, it returns that
  embedding.
\<close>

theorem embedding_client_outcomes:
  assumes "get_secret w (LLM_API_KEY_SECRET w) tr = (Inr secret, tr1)"
    and "py_getitem secret (lit ''api_key'') = Inr api_key"
    and "requests_post w tr1 (EXTERNAL_LLM_ENDPOINT w @ lit ''/embeddings'')
           (bearer_headers w api_key) (embedding_payload txt) 30 = Inr response"
  shows "(status_code response \<noteq> 200 \<longrightarrow>
            generate_embedding w txt tr =
              (Inl (Exception (lit ''Embedding generation failed: ''
                                 @ str_int (status_code response))),
               tr1 @ [HttpPost (EXTERNAL_LLM_ENDPOINT w @ lit ''/embeddings'')
                        (bearer_headers w api_key) (embedding_payload txt) 30,
                      LogError (lit ''Embedding API error: '' @ str_int (status_code response)
                                  @ lit '' - '' @ resp_text response),
                      LogError (lit ''Error generating embedding: ''
                                  @ lit ''Embedding generation failed: ''
                                  @ str_int (status_code response))])) \<and>
         (status_code response = 200 \<and> resp_json response = Inr (JObj payload) \<and>
          map_of payload (lit ''data'') = Some (JList (JObj first # others)) \<and>
          map_of first (lit ''embedding'') = Some vector \<longrightarrow>
            generate_embedding w txt tr =
              (Inr vector,
               tr1 @ [HttpPost (EXTERNAL_LLM_ENDPOINT w @ lit ''/embeddings'')
                        (bearer_headers w api_key) (embedding_payload txt) 30]))"
  by (simp add: generate_embedding_run [OF assms] embedding_result_run first_embedding_def
      py_getitem_def py_getitem0_def str_exc_def)

text \<open>The theorem at the sample deployment.\<close>

theorem embedding_client_outcomes_witness:
  "generate_embedding (demo_world (Some (lit ''dev'')) 503 (lit ''upstream overloaded'')
       demo_documents) (lit ''What is RAG?'') [] =
     (Inl (Exception (lit ''Embedding generation failed: 503'')),
      [GetSecretValue (lit ''rag/llm-api-key''),
       HttpPost (lit ''https://llm.example.com/v1/embeddings'')
         [(lit ''Authorization'', lit ''Bearer sk-demo''),
          (lit ''Content-Type'', lit ''application/json'')]
         (embedding_payload (lit ''What is RAG?'')) 30,
       LogError (lit ''Embedding API error: 503 - upstream overloaded''),
       LogError (lit ''Error generating embedding: Embedding generation failed: 503'')]) \<and>
   fst (generate_embedding (demo_world (Some (lit ''dev'')) 200 [] demo_documents)
       (lit ''What is RAG?'') []) = Inr (JList [JFloat 1 (- 1), JFloat 1 (- 2)])"
proof -
  let ?q = "lit ''What is RAG?''"
  let ?secret = "JObj [(lit ''api_key'', JStr (lit ''sk-demo''))]"
  have secret: "py_getitem ?secret (lit ''api_key'') = Inr (JStr (lit ''sk-demo''))"
    by (rule py_getitem_first)
  have hdr: "bearer_headers w (JStr (lit ''sk-demo'')) =
      [(lit ''Authorization'', lit ''Bearer sk-demo''),
       (lit ''Content-Type'', lit ''application/json'')]" for w
    by (simp add: bearer_headers_def py_str_def lit_append)
  {
    fix st reply
    let ?w = "demo_world (Some (lit ''dev'')) st reply demo_documents"
    have 1: "get_secret ?w (LLM_API_KEY_SECRET ?w) [] =
        (Inr ?secret, [GetSecretValue (lit ''rag/llm-api-key'')])"
      by (simp add: demo_get_secret)
    have 3: "requests_post ?w [GetSecretValue (lit ''rag/llm-api-key'')]
        (EXTERNAL_LLM_ENDPOINT ?w @ lit ''/embeddings'')
        (bearer_headers ?w (JStr (lit ''sk-demo''))) (embedding_payload ?q) 30 =
        Inr \<lparr>status_code = st, resp_text = reply,
             resp_json = Inr (JObj [(lit ''data'',
               JList [JObj [(lit ''embedding'', JList [JFloat 1 (- 1), JFloat 1 (- 2)])]])])\<rparr>"
      by (simp add: demo_post_def lit_append)
    note embedding_client_outcomes [OF 1 secret 3]
  }
  note outcome = this
  from outcome [of 503 "lit ''upstream overloaded''"]
  have a: "generate_embedding (demo_world (Some (lit ''dev'')) 503 (lit ''upstream overloaded'')
       demo_documents) ?q [] =
     (Inl (Exception (lit ''Embedding generation failed: 503'')),
      [GetSecretValue (lit ''rag/llm-api-key''),
       HttpPost (lit ''https://llm.example.com/v1/embeddings'')
         [(lit ''Authorization'', lit ''Bearer sk-demo''),
          (lit ''Content-Type'', lit ''application/json'')]
         (embedding_payload ?q) 30,
       LogError (lit ''Embedding API error: 503 - upstream overloaded''),
       LogError (lit ''Error generating embedding: Embedding generation failed: 503'')])"
    by (simp add: hdr str_int_503 lit_append)
  from outcome [of 200 "[]" "[(lit ''data'',
               JList [JObj [(lit ''embedding'', JList [JFloat 1 (- 1), JFloat 1 (- 2)])]])]"
      "[(lit ''embedding'', JList [JFloat 1 (- 1), JFloat 1 (- 2)])]" "[]"
      "JList [JFloat 1 (- 1), JFloat 1 (- 2)]"]
  have b: "fst (generate_embedding (demo_world (Some (lit ''dev'')) 200 [] demo_documents)
       ?q []) = Inr (JList [JFloat 1 (- 1), JFloat 1 (- 2)])"
    by simp
  from a b show ?thesis by (rule conjI)
qed

text \<open>
  C7 as stated fails: the raised error does not carry the body. Two 503 answers with
  different bodies raise the same exception, whose only content is the status code.
\<close>

theorem embedding_error_omits_body_counterexample:
  "fst (generate_embedding (demo_world (Some (lit ''dev'')) 503 (lit ''upstream overloaded'')
          demo_documents) (lit ''What is RAG?'') []) =
     Inl (Exception (lit ''Embedding generation failed: 503'')) \<and>
   fst (generate_embedding (demo_world (Some (lit ''dev'')) 503 (lit ''maintenance window'')
          demo_documents) (lit ''What is RAG?'') []) =
     Inl (Exception (lit ''Embedding generation failed: 503''))"
  by (simp add: demo_generate_embedding str_int_503 lit_append)

text \<open>
  C8. \<open>publish_metrics\<close> always returns: whatever the backend does, the result is
  \<open>None\<close>, the call is on the trace, and a failure of the backend adds one log line.
  Replacing the metrics backend by any other leaves the handler's response unchanged.
\<close>

theorem publish_metrics_never_raises:
  "fst (publish_metrics w metric_name val unit tr) = Inr () \<and>
   fst (lambda_handler (w\<lparr>put_metric_data := backend\<rparr>) event tr) =
     fst (lambda_handler w event tr)"
proof
  show "fst (publish_metrics w metric_name val unit tr) = Inr ()"
    by (simp add: publish_metrics_run)
next
  let ?w = "w\<lparr>put_metric_data := backend\<rparr>"
  let ?st = "get_remaining_time_in_millis w tr"
  have st: "get_remaining_time_in_millis ?w tr = ?st" by simp
  have h: "fst (handler_try ?w event ?st tr) = fst (handler_try w event ?st tr)"
    by (rule backend_handler_try)
  have e: "error_response ?w e = error_response w e" for e
    by (simp add: error_response_def error_message_def backend_str_exc)
  show "fst (lambda_handler ?w event tr) = fst (lambda_handler w event tr)"
  proof (cases "handler_try w event ?st tr")
    case (Pair x tr1)
    obtain x' tr1' where p: "handler_try ?w event ?st tr = (x', tr1')"
      by (cases "handler_try ?w event ?st tr")
    with h Pair have "x' = x" by simp
    with p Pair show ?thesis
      by (cases x) (simp_all add: lambda_handler_unfold st handler_except_run e)
  qed
qed

text \<open>
  C9. Each of the four responses (400, 200 without documents, 200 success, 500) carries
  \<^verbatim>\<open>Content-Type: application/json\<close> and \<^verbatim>\<open>Access-Control-Allow-Origin: *\<close>, and
  every invocation returns a response that carries them.
\<close>

theorem responses_carry_json_and_cors_headers:
  "has_json_cors_headers (validation_response w) \<and>
   has_json_cors_headers (no_documents_response w) \<and>
   has_json_cors_headers (success_response w d) \<and>
   has_json_cors_headers (error_response w e) \<and>
   (\<exists>r tr'. lambda_handler w event tr = (Inr r, tr') \<and> has_json_cors_headers r)"
proof -
  have 1: "has_json_cors_headers (validation_response w)"
    and 2: "has_json_cors_headers (no_documents_response w)"
    and 3: "\<And>d. has_json_cors_headers (success_response w d)"
    and 4: "\<And>e. has_json_cors_headers (error_response w e)"
    by (simp_all add: has_json_cors_headers_def validation_response_def
        no_documents_response_def success_response_def error_response_def json_headers_def)
  obtain r tr' where r: "lambda_handler w event tr = (Inr r, tr')"
    and "r = validation_response w \<or> r = no_documents_response w \<or>
      (\<exists>d. r = success_response w d) \<or> (\<exists>e. r = error_response w e)"
    using lambda_handler_returns [of w event tr] by blast
  then have "has_json_cors_headers r" using 1 2 3 4 by auto
  with r 1 2 3 4 show ?thesis by blast
qed

text \<open>
  C10. When the event's body is a string that \<^verbatim>\<open>json.loads\<close> rejects, the handler
  returns the 500 response (not the 400 one) built from the decoder's exception, and
  publishes \<^verbatim>\<open>QueryErrors\<close> once.
\<close>

theorem malformed_body_is_internal_error:
  assumes "map_of kvs (lit ''body'') = Some (JStr s)" and "json_loads w s = Inl e"
  shows "fst (lambda_handler w (JObj kvs) tr) =
           Inr \<lparr>statusCode = 500, headers = json_headers,
                body = json_dumps w
                  (JObj [(lit ''error'', JStr (lit ''Internal server error'')),
                         (lit ''message'', JStr (error_message w e))])\<rparr> \<and>
         fst (lambda_handler w (JObj kvs) tr) \<noteq> Inr (validation_response w) \<and>
         published (snd (lambda_handler w (JObj kvs) tr)) =
           published tr @ [PutMetricData (lit ''RAG/Application'') (lit ''QueryErrors'')
                             (IntVal 1) (lit ''Count'') (environment_dimension w)]"
proof -
  from assms have "parse_body w (JObj kvs) = Inl e"
    by (simp add: parse_body_def py_get_def py_getitem_def loads_def)
  then have "handler_try w (JObj kvs) (get_remaining_time_in_millis w tr) tr = (Inl e, tr)"
    by (simp add: handler_try_unfold)
  then have 1: "lambda_handler w (JObj kvs) tr = handler_except w e tr"
    by (simp add: lambda_handler_unfold)
  show ?thesis unfolding 1
    by (simp add: handler_except_run published_publish_metrics error_response_def
        validation_response_def) (simp add: published_def)
qed

text \<open>The theorem at the sample deployment.\<close>

theorem malformed_body_is_internal_error_witness:
  "fst (lambda_handler (demo_world (Some (lit ''dev'')) 200 [] demo_documents)
          malformed_event []) =
     Inr \<lparr>statusCode = 500, headers = json_headers,
          body = demo_dumps
            (JObj [(lit ''error'', JStr (lit ''Internal server error'')),
                   (lit ''message'',
                      JStr (lit ''Expecting value: line 1 column 1 (char 0)''))])\<rparr> \<and>
   published (snd (lambda_handler (demo_world (Some (lit ''dev'')) 200 [] demo_documents)
          malformed_event [])) =
     [PutMetricData (lit ''RAG/Application'') (lit ''QueryErrors'') (IntVal 1) (lit ''Count'')
        (lit ''dev'')]"
proof -
  let ?w = "demo_world (Some (lit ''dev'')) 200 [] demo_documents"
  have 1: "map_of [(lit ''body'', JStr (lit ''not json''))] (lit ''body'')
      = Some (JStr (lit ''not json''))"
    by simp
  have 2: "json_loads ?w (lit ''not json'') =
      Inl (LibraryError (lit ''Expecting value: line 1 column 1 (char 0)''))"
    by (simp add: demo_loads_def)
  show ?thesis
    using malformed_body_is_internal_error [OF 1 2, of "[]"]
    by (simp add: malformed_event_def error_message_def str_exc_def published_def
        environment_dimension_def)
qed

end
